theory Spec2Isabelle
  imports Complex_Main "HOL-Library.Multiset" "HOL-Library.Log_Nat"
begin

section \<open>The parallel execution benchmark (parallel\_executor.py)\<close>

text \<open>
  The module runs an external command N times under one of three strategies
  (fork, thread, subshell), aggregates the per-iteration results and derives
  recommendations. Everything the operating system decides (how a child process
  ends, how long it took, which worker ran it, in which order workers finish) is an
  explicit input of the model; everything the Python code decides is a HOL function of
  those inputs. Durations are Python floats; they are modelled by the reals they
  denote. Where the code compares floats with thresholds (the recommendations), the
  rounding of binary floating point is modelled. Printing (to standard error, or under
  \<open>verbose\<close>) changes no result and is left out.
\<close>

subsection \<open>What one call of subprocess.run can do\<close>

text \<open>
  \<open>Completed rc err\<close>: the child ran to its end with return code \<open>rc\<close> and standard
  error \<open>err\<close>. \<open>TimeoutExpired\<close>: the timeout given to subprocess.run fired.
  \<open>FileNotFoundError\<close> is a subclass of \<open>OSError\<close> in Python; both are kept because
  the pre-flight check names both. \<open>OtherException\<close> is any other \<open>Exception\<close>.
  The string is \<open>str(e)\<close>.
\<close>

datatype proc_outcome =
    Completed int string
  | TimeoutExpired
  | FileNotFoundError string
  | OSError string
  | OtherException string

fun exception_text :: "proc_outcome \<Rightarrow> string" where
  "exception_text (Completed rc err) = []"
| "exception_text TimeoutExpired = ''timeout''"
| "exception_text (FileNotFoundError s) = s"
| "exception_text (OSError s) = s"
| "exception_text (OtherException s) = s"

text \<open>
  What os.waitpid reports to the parent in the fork strategy: the child exited by
  itself (\<open>WIFEXITED\<close>), the child was ended by a signal, or waitpid raised \<open>OSError\<close>.
\<close>

datatype wait_result = WaitExited | WaitSignaled | WaitOSError string

text \<open>
  One iteration as the environment decides it: the identity of the worker (the child's
  pid under fork, \<open>threading.get_ident()\<close> under thread), the elapsed time
  \<open>end_time - start_time\<close>, the outcome of subprocess.run and, for fork, the result of
  waitpid.
\<close>

record run_event =
  worker_id :: int
  elapsed :: real
  outcome :: proc_outcome
  wait :: wait_result

type_synonym command = "string list"

datatype error =
    StatisticsError
  | MaxWorkersValueError
  | CommandNotRunnable command
  | UnsupportedExecutionType string
  | UsageError

subsection \<open>Per-iteration results and aggregates\<close>

text \<open>
  The dictionaries appended to \<open>results\<close>. The key \<open>exit_status\<close> of the fork
  strategy and the key \<open>return_code\<close> of the other two are the one field
  \<open>exit_code\<close>; keys that a strategy does not write are \<open>None\<close>.
\<close>

record iteration_result =
  iteration :: int
  execution_time :: real
  exit_code :: int
  success :: bool
  child_pid :: "int option"
  thread_id :: "int option"
  stderr :: "string option"
  error_text :: "string option"

record aggregate_statistics =
  st_values :: "real list"
  st_mean :: real
  st_median :: real
  st_stdev :: real
  st_min :: real
  st_max :: real

definition py_mean :: "real list \<Rightarrow> real" where
  "py_mean xs = sum_list xs / real (length xs)"

definition py_median :: "real list \<Rightarrow> real" where
  "py_median xs =
     (let s = sort xs; n = length s
      in if n mod 2 = 1 then s ! (n div 2)
         else (s ! (n div 2 - 1) + s ! (n div 2)) / 2)"

definition py_stdev :: "real list \<Rightarrow> real" where
  "py_stdev xs =
     (let m = py_mean xs
      in sqrt (sum_list (map (\<lambda>x. (x - m) ^ 2) xs) / real (length xs - 1)))"

text \<open>
  The dictionary under the key \<open>execution_times\<close>, as the three analysis functions
  build it. \<open>statistics.mean\<close> is the first call evaluated and raises
  \<open>StatisticsError\<close> on an empty list; the source guards \<open>statistics.stdev\<close> by
  \<open>len(execution_times) > 1\<close>.
\<close>

definition execution_times_dict :: "real list \<Rightarrow> error + aggregate_statistics" where
  "execution_times_dict execution_times =
     (case execution_times of
        [] \<Rightarrow> Inl StatisticsError
      | x # rest \<Rightarrow>
          Inr \<lparr> st_values = execution_times,
                st_mean = py_mean execution_times,
                st_median = py_median execution_times,
                st_stdev = (if length execution_times > 1 then py_stdev execution_times else 0),
                st_min = fold min rest x,
                st_max = fold max rest x \<rparr>)"

record fork_efficiency =
  fk_success_rate :: real
  fk_failure_rate :: real
  fk_average_processes :: int
  fk_process_creation_efficiency :: real

record concurrency =
  ca_total_threads :: int
  ca_success_rate :: real
  ca_average_execution_time :: real
  ca_thread_efficiency :: real
  ca_actual_parallelism :: real
  ca_parallel_overhead :: "real option"

record isolation =
  ia_success_rate :: real
  ia_average_execution_time :: real
  ia_isolation_efficiency :: real

text \<open>
  The dictionary an executor returns. \<open>metrics\<close> is the list under
  \<open>process_metrics\<close>, \<open>thread_metrics\<close> or \<open>subshell_metrics\<close>; a key that a
  strategy does not write is \<open>None\<close>.
\<close>

record strategy_result =
  execution_type :: string
  total_iterations :: int
  successful_iterations :: int
  failed_iterations :: int
  unique_threads_used :: "int option"
  execution_times :: aggregate_statistics
  metrics :: "iteration_result list"
  parallel_efficiency :: "fork_efficiency option"
  concurrency_analysis :: "concurrency option"
  isolation_analysis :: "isolation option"

text \<open>\<open>range(n)\<close>: empty when \<open>n \<le> 0\<close>.\<close>

definition py_range :: "int \<Rightarrow> int list" where
  "py_range n = [0..n - 1]"

text \<open>\<open>len(xs)\<close> as a Python integer.\<close>

abbreviation len :: "'a list \<Rightarrow> int" where
  "len xs \<equiv> int (length xs)"

subsection \<open>ForkExecutor\<close>

text \<open>
  The child calls subprocess.run with a 10 second timeout and leaves through
  \<open>os._exit\<close>: with the return code (the parent sees its low eight bits), with 124 on
  \<open>TimeoutExpired\<close>, with 1 on any other exception.
\<close>

fun child_exit_status :: "proc_outcome \<Rightarrow> int" where
  "child_exit_status (Completed rc err) = rc mod 256"
| "child_exit_status TimeoutExpired = 124"
| "child_exit_status (FileNotFoundError s) = 1"
| "child_exit_status (OSError s) = 1"
| "child_exit_status (OtherException s) = 1"

text \<open>The parent's side of loop index \<open>i\<close>: exactly one dictionary is appended.\<close>

definition fork_iteration :: "(int \<Rightarrow> run_event) \<Rightarrow> int \<Rightarrow> iteration_result" where
  "fork_iteration env i =
     (let ev = env i
      in case wait ev of
           WaitExited \<Rightarrow>
             \<lparr> iteration = i + 1, execution_time = elapsed ev,
               exit_code = child_exit_status (outcome ev),
               success = (child_exit_status (outcome ev) = 0),
               child_pid = Some (worker_id ev), thread_id = None,
               stderr = None, error_text = None \<rparr>
         | WaitSignaled \<Rightarrow>
             \<lparr> iteration = i + 1, execution_time = elapsed ev,
               exit_code = - 1, success = False,
               child_pid = Some (worker_id ev), thread_id = None,
               stderr = None, error_text = None \<rparr>
         | WaitOSError e \<Rightarrow>
             \<lparr> iteration = i + 1, execution_time = elapsed ev,
               exit_code = - 1, success = False,
               child_pid = Some (worker_id ev), thread_id = None,
               stderr = None, error_text = Some e \<rparr>)"

definition calculate_fork_efficiency :: "iteration_result list \<Rightarrow> fork_efficiency" where
  "calculate_fork_efficiency results =
     (let successful_runs = filter success results;
          failed_runs = filter (\<lambda>r. \<not> success r) results
      in \<lparr> fk_success_rate =
              (if results \<noteq> [] then real (length successful_runs) / real (length results) else 0),
            fk_failure_rate =
              (if results \<noteq> [] then real (length failed_runs) / real (length results) else 0),
            fk_average_processes = len results,
            fk_process_creation_efficiency =
              (if results \<noteq> [] then real (length successful_runs) / real (length results) else 0) \<rparr>)"

definition analyze_fork_results :: "iteration_result list \<Rightarrow> error + strategy_result" where
  "analyze_fork_results results =
     (let successful_results = filter success results;
          times = map execution_time successful_results;
          execution_times = (if times = [] then [0] else times)
      in case execution_times_dict execution_times of
           Inl e \<Rightarrow> Inl e
         | Inr stats \<Rightarrow>
             Inr \<lparr> execution_type = ''fork'',
                   total_iterations = len results,
                   successful_iterations = len successful_results,
                   failed_iterations = len results - len successful_results,
                   unique_threads_used = None,
                   execution_times = stats,
                   metrics = results,
                   parallel_efficiency = Some (calculate_fork_efficiency results),
                   concurrency_analysis = None,
                   isolation_analysis = None \<rparr>)"

text \<open>
  The loop of \<open>execute_with_fork\<close>. The first component lists the commands handed to
  subprocess.run, one per iteration. \<open>os.fork\<close> itself is taken to succeed.
\<close>

definition fork_results :: "(int \<Rightarrow> run_event) \<Rightarrow> int \<Rightarrow> iteration_result list" where
  "fork_results env iterations = map (fork_iteration env) (py_range iterations)"

definition execute_with_fork ::
  "(int \<Rightarrow> run_event) \<Rightarrow> command \<Rightarrow> int \<Rightarrow> command list \<times> (error + strategy_result)" where
  "execute_with_fork env command iterations =
     (map (\<lambda>i. command) (py_range iterations),
      analyze_fork_results (fork_results env iterations))"

subsection \<open>ThreadExecutor\<close>

text \<open>
  \<open>run_single_iteration\<close>: whatever subprocess.run does, exactly one dictionary is
  appended to the shared list. Standard error is kept (200 characters of it) only for
  a non-zero return code with a non-empty text.
\<close>

definition run_single_iteration :: "(int \<Rightarrow> run_event) \<Rightarrow> int \<Rightarrow> iteration_result" where
  "run_single_iteration env iteration_num =
     (let ev = env iteration_num
      in case outcome ev of
           Completed rc err \<Rightarrow>
             \<lparr> iteration = iteration_num, execution_time = elapsed ev,
               exit_code = rc, success = (rc = 0),
               child_pid = None, thread_id = Some (worker_id ev),
               stderr = (if rc \<noteq> 0 \<and> err \<noteq> [] then Some (take 200 err) else None),
               error_text = None \<rparr>
         | TimeoutExpired \<Rightarrow>
             \<lparr> iteration = iteration_num, execution_time = elapsed ev,
               exit_code = 124, success = False,
               child_pid = None, thread_id = Some (worker_id ev),
               stderr = None, error_text = Some ''timeout'' \<rparr>
         | e \<Rightarrow>
             \<lparr> iteration = iteration_num, execution_time = elapsed ev,
               exit_code = - 1, success = False,
               child_pid = None, thread_id = Some (worker_id ev),
               stderr = None, error_text = Some (exception_text e) \<rparr>)"

text \<open>
  The order in which the workers append to the shared list is not fixed by the code.
  A schedule is a list of picks: the next dictionary appended is that of the pending
  task number \<open>k mod (number pending)\<close>; when the picks run out the pending tasks
  finish in submission order. Every schedule completes every submitted task once, which
  is what leaving the \<open>with ThreadPoolExecutor\<close> block guarantees (it waits for all
  workers, also after \<open>future.result(timeout=12)\<close> gave up on one).
\<close>

fun completion_order :: "nat list \<Rightarrow> 'a list \<Rightarrow> 'a list" where
  "completion_order [] pending = pending"
| "completion_order (k # ks) pending =
     (if pending = [] then []
      else (let i = k mod length pending
            in pending ! i # completion_order ks (take i pending @ drop (Suc i) pending)))"

definition calculate_thread_efficiency :: "iteration_result list \<Rightarrow> real \<Rightarrow> real" where
  "calculate_thread_efficiency results total_time =
     (let successful_results = filter success results
      in if successful_results = [] \<or> total_time \<le> 0 then 0
         else (let individual_times = map execution_time successful_results;
                   sequential_time = sum_list individual_times;
                   threads_used = card (set (map thread_id results));
                   theoretical_parallel_time = total_time * real threads_used;
                   efficiency = (if theoretical_parallel_time > 0
                                 then sequential_time / theoretical_parallel_time else 0)
               in min efficiency 1))"

definition empty_thread_result :: strategy_result where
  "empty_thread_result =
     \<lparr> execution_type = ''thread'',
       total_iterations = 0,
       successful_iterations = 0,
       failed_iterations = 0,
       unique_threads_used = None,
       execution_times =
         \<lparr> st_values = [0], st_mean = 0, st_median = 0, st_stdev = 0, st_min = 0, st_max = 0 \<rparr>,
       metrics = [],
       parallel_efficiency = None,
       concurrency_analysis =
         Some \<lparr> ca_total_threads = 0, ca_success_rate = 0, ca_average_execution_time = 0,
                ca_thread_efficiency = 0, ca_actual_parallelism = 0,
                ca_parallel_overhead = None \<rparr>,
       isolation_analysis = None \<rparr>"

definition analyze_thread_results ::
  "iteration_result list \<Rightarrow> real \<Rightarrow> error + strategy_result" where
  "analyze_thread_results results total_time =
     (if results = [] then Inr empty_thread_result
      else
       (let successful_results = filter success results;
            times = map execution_time successful_results;
            execution_times = (if times = [] then [0] else times);
            unique_threads = int (card (set (map thread_id results)));
            actual_parallelism =
              (if successful_results \<noteq> []
               then (let sequential_time = sum_list execution_times;
                         parallel_time = total_time
                     in if parallel_time > 0 then sequential_time / parallel_time else 1)
               else 0)
        in case execution_times_dict execution_times of
             Inl e \<Rightarrow> Inl e
           | Inr stats \<Rightarrow>
               Inr \<lparr> execution_type = ''thread'',
                     total_iterations = len results,
                     successful_iterations = len successful_results,
                     failed_iterations = len results - len successful_results,
                     unique_threads_used = Some unique_threads,
                     execution_times = stats,
                     metrics = results,
                     parallel_efficiency = None,
                     concurrency_analysis =
                       Some \<lparr> ca_total_threads = unique_threads,
                              ca_success_rate =
                                (if results \<noteq> []
                                 then real (length successful_results) / real (length results)
                                 else 0),
                              ca_average_execution_time =
                                (if execution_times \<noteq> [] then py_mean execution_times else 0),
                              ca_thread_efficiency =
                                calculate_thread_efficiency results total_time,
                              ca_actual_parallelism = actual_parallelism,
                              ca_parallel_overhead =
                                Some (total_time -
                                  (case execution_times of [] \<Rightarrow> 0
                                   | x # rest \<Rightarrow> fold max rest x)) \<rparr>,
                     isolation_analysis = None \<rparr>))"

text \<open>
  \<open>execute_with_threads\<close>. \<open>ThreadPoolExecutor(max_workers=n)\<close> raises
  \<open>ValueError\<close> for \<open>n \<le> 0\<close>, before any task is submitted. Tasks are submitted
  with the numbers \<open>1..iterations\<close>; \<open>total_time\<close> is
  \<open>end_execution - start_execution\<close>.
\<close>

definition thread_results ::
  "(int \<Rightarrow> run_event) \<Rightarrow> nat list \<Rightarrow> int \<Rightarrow> iteration_result list" where
  "thread_results env sched iterations =
     map (run_single_iteration env)
       (completion_order sched (map (\<lambda>i. i + 1) (py_range iterations)))"

definition execute_with_threads ::
  "int \<Rightarrow> (int \<Rightarrow> run_event) \<Rightarrow> nat list \<Rightarrow> real \<Rightarrow> command \<Rightarrow> int
     \<Rightarrow> command list \<times> (error + strategy_result)" where
  "execute_with_threads cpu_count env sched total_time command iterations =
     (let optimal_workers = min iterations (min cpu_count 8)
      in if optimal_workers \<le> 0 then ([], Inl MaxWorkersValueError)
         else (map (\<lambda>i. command) (py_range iterations),
               analyze_thread_results (thread_results env sched iterations) total_time))"

subsection \<open>SubshellExecutor\<close>

text \<open>
  The command is run directly (\<open>shell=False\<close>); the string \<open>subshell_command\<close> is
  built and never used. On a timeout the recorded time is the literal 10.0, on any
  other exception the literal 0.0.
\<close>

definition subshell_iteration :: "(int \<Rightarrow> run_event) \<Rightarrow> int \<Rightarrow> iteration_result" where
  "subshell_iteration env i =
     (let ev = env i
      in case outcome ev of
           Completed rc err \<Rightarrow>
             \<lparr> iteration = i + 1, execution_time = elapsed ev,
               exit_code = rc, success = (rc = 0),
               child_pid = None, thread_id = None,
               stderr = None, error_text = None \<rparr>
         | TimeoutExpired \<Rightarrow>
             \<lparr> iteration = i + 1, execution_time = 10,
               exit_code = - 1, success = False,
               child_pid = None, thread_id = None,
               stderr = None, error_text = Some ''timeout'' \<rparr>
         | e \<Rightarrow>
             \<lparr> iteration = i + 1, execution_time = 0,
               exit_code = - 1, success = False,
               child_pid = None, thread_id = None,
               stderr = None, error_text = Some (exception_text e) \<rparr>)"

definition analyze_subshell_isolation :: "iteration_result list \<Rightarrow> isolation" where
  "analyze_subshell_isolation results =
     (let successful_results = filter success results
      in \<lparr> ia_success_rate =
              (if results \<noteq> [] then real (length successful_results) / real (length results)
               else 0),
            ia_average_execution_time =
              (if successful_results \<noteq> [] then py_mean (map execution_time successful_results)
               else 0),
            ia_isolation_efficiency =
              (if results \<noteq> [] then real (length successful_results) / real (length results)
               else 0) \<rparr>)"

definition analyze_subshell_results :: "iteration_result list \<Rightarrow> error + strategy_result" where
  "analyze_subshell_results results =
     (let successful_results = filter success results;
          times = map execution_time successful_results;
          execution_times = (if times = [] then [0] else times)
      in case execution_times_dict execution_times of
           Inl e \<Rightarrow> Inl e
         | Inr stats \<Rightarrow>
             Inr \<lparr> execution_type = ''subshell'',
                   total_iterations = len results,
                   successful_iterations = len successful_results,
                   failed_iterations = len results - len successful_results,
                   unique_threads_used = None,
                   execution_times = stats,
                   metrics = results,
                   parallel_efficiency = None,
                   concurrency_analysis = None,
                   isolation_analysis = Some (analyze_subshell_isolation results) \<rparr>)"

definition subshell_results :: "(int \<Rightarrow> run_event) \<Rightarrow> int \<Rightarrow> iteration_result list" where
  "subshell_results env iterations = map (subshell_iteration env) (py_range iterations)"

definition execute_with_subshells ::
  "(int \<Rightarrow> run_event) \<Rightarrow> command \<Rightarrow> int \<Rightarrow> command list \<times> (error + strategy_result)" where
  "execute_with_subshells env command iterations =
     (map (\<lambda>i. command) (py_range iterations),
      analyze_subshell_results (subshell_results env iterations))"

subsection \<open>ParallelExecutor: the orchestrator\<close>

record system_info =
  si_cpu_count :: int
  si_memory_total :: int
  si_memory_available :: int
  si_cpu_percent :: real
  si_platform :: string

text \<open>The fields of the object that \<open>execute\<close> reads.\<close>

record parallel_executor =
  self_file_path :: string
  self_command :: command
  self_compile_info :: string

text \<open>
  The environment of one call of \<open>execute\<close>. The pre-flight outcome may depend on
  the timeout it is given (in seconds). The warm-up pass and the measured pass of the
  thread strategy are separate runs of the command, so each has its own events,
  schedule and wall-clock time. \<open>total_elapsed\<close> is
  \<open>end_total_time - start_total_time\<close>, \<open>clock\<close> is \<open>time.time()\<close> after the run.
\<close>

record world =
  w_cpu_count :: int
  preflight :: "int \<Rightarrow> proc_outcome"
  warmup_runs :: "int \<Rightarrow> run_event"
  warmup_sched :: "nat list"
  warmup_total_time :: real
  measured_runs :: "int \<Rightarrow> run_event"
  measured_sched :: "nat list"
  measured_total_time :: real
  total_elapsed :: real
  clock :: real
  host :: system_info

text \<open>
  What \<open>execute\<close> does to the outside, in order: each call of subprocess.run on the
  command, tagged by the part of \<open>execute\<close> that made it, and the call of
  \<open>_save_results\<close>.
\<close>

datatype phase = Preflight | Warmup | Measured

datatype event = Run phase command | Saved

record benchmark_run = strategy_result +
  total_execution_time :: real
  file_path :: string
  run_command :: command
  compile_info :: string
  timestamp :: real
  run_system_info :: system_info

definition test_command_optimized :: "world \<Rightarrow> command \<Rightarrow> string \<Rightarrow> bool" where
  "test_command_optimized w command exec_type =
     (let timeout = (if exec_type = ''thread'' then 1 else 2)
      in case preflight w timeout of
           Completed rc err \<Rightarrow> True
         | TimeoutExpired \<Rightarrow> True
         | FileNotFoundError s \<Rightarrow> False
         | OSError s \<Rightarrow> False
         | OtherException s \<Rightarrow> True)"

text \<open>
  The body of the \<open>try\<close> block of \<open>execute\<close>. The warm-up call of the thread branch
  sits in \<open>try: ... except: pass\<close>: its result, or its error, is dropped and only the
  commands it ran remain.
\<close>

definition dispatch ::
  "world \<Rightarrow> command \<Rightarrow> string \<Rightarrow> int \<Rightarrow> event list \<times> (error + strategy_result)" where
  "dispatch w command exec_type iterations =
     (if exec_type = ''fork'' then
        (let (cmds, results) = execute_with_fork (measured_runs w) command iterations
         in (map (Run Measured) cmds, results))
      else if exec_type = ''thread'' then
        (let warm =
               (if iterations > 1
                then fst (execute_with_threads (w_cpu_count w) (warmup_runs w) (warmup_sched w)
                            (warmup_total_time w) command 1)
                else []);
             (cmds, results) =
               execute_with_threads (w_cpu_count w) (measured_runs w) (measured_sched w)
                 (measured_total_time w) command iterations
         in (map (Run Warmup) warm @ map (Run Measured) cmds, results))
      else if exec_type = ''subshell'' then
        (let (cmds, results) = execute_with_subshells (measured_runs w) command iterations
         in (map (Run Measured) cmds, results))
      else ([], Inl (UnsupportedExecutionType exec_type)))"

definition get_system_info :: "world \<Rightarrow> system_info" where
  "get_system_info w = host w"

text \<open>
  \<open>execute\<close>. \<open>program_args\<close> is the optional argument string, already split at
  white space; \<open>resolved_command\<close> is the copy of \<open>self.command\<close> extended by it.
  A failed write inside \<open>_save_results\<close> is caught there and only printed, so
  \<open>Saved\<close> records the call.
\<close>

definition resolved_command :: "parallel_executor \<Rightarrow> string list option \<Rightarrow> command" where
  "resolved_command self program_args =
     self_command self @ (case program_args of None \<Rightarrow> [] | Some ws \<Rightarrow> ws)"

definition execute ::
  "parallel_executor \<Rightarrow> world \<Rightarrow> string \<Rightarrow> int \<Rightarrow> string list option
     \<Rightarrow> event list \<times> (error + benchmark_run)" where
  "execute self w exec_type iterations program_args =
     (let command = resolved_command self program_args
      in if \<not> test_command_optimized w command exec_type
         then ([Run Preflight command], Inl (CommandNotRunnable command))
         else (case dispatch w command exec_type iterations of
                 (evs, Inl e) \<Rightarrow> (Run Preflight command # evs, Inl e)
               | (evs, Inr results) \<Rightarrow>
                   (Run Preflight command # evs @ [Saved],
                    Inr (strategy_result.extend results
                           (benchmark_run.fields (total_elapsed w) (self_file_path self)
                              command (self_compile_info self) (clock w)
                              (get_system_info w))))))"

text \<open>Reading the trace.\<close>

fun is_run :: "event \<Rightarrow> bool" where
  "is_run (Run p c) = True"
| "is_run Saved = False"

definition commands_executed :: "event list \<Rightarrow> nat" where
  "commands_executed evs = length (filter is_run evs)"

definition measured_iterations :: "event list \<Rightarrow> nat" where
  "measured_iterations evs = length (filter (\<lambda>e. case e of Run p c \<Rightarrow> p = Measured | Saved \<Rightarrow> False) evs)"

subsection \<open>Recommendations\<close>

text \<open>
  The messages, in the order of the source:
  \<^item> \<open>HighFailureRate\<close>: "Taux d'echec eleve - verifiez la stabilite du code ou les dependances";
  \<^item> \<open>HighVariability\<close>: "Forte variabilite detectee - considerez plus d'iterations pour la stabilite";
  \<^item> \<open>TooShortIncreaseWorkload\<close>: "Temps d'execution tres faible - augmentez la charge de travail pour des mesures plus precises";
  \<^item> \<open>ForkCreationCost\<close>: "Fork: Temps d'execution tres court - le cout de creation de processus peut dominer";
  \<^item> \<open>ForkHighFailureRate\<close>: "Fork: Taux d'echec eleve - verifiez la stabilite du code";
  \<^item> \<open>ThreadLowEfficiency\<close>: "Thread: Faible efficacite - possible contention ou code non thread-safe";
  \<^item> \<open>ThreadUnderUse\<close>: "Thread: Sous-utilisation des threads disponibles";
  \<^item> \<open>SubshellLowIsolation\<close>: "Subshell: Efficacite d'isolation faible - considerez l'execution directe";
  \<^item> \<open>SlowOptimise\<close>: "Temps d'execution eleve - considerez l'optimisation du code";
  \<^item> \<open>TooShortImprecise\<close>: "Temps d'execution tres faible - les mesures peuvent etre imprecises";
  \<^item> \<open>Acceptable\<close>: "Performance acceptable avec la methode d'execution choisie".
  The eleven texts are pairwise different, so a message is identified by its constructor.
\<close>

datatype recommendation =
    HighFailureRate
  | HighVariability
  | TooShortIncreaseWorkload
  | ForkCreationCost
  | ForkHighFailureRate
  | ThreadLowEfficiency
  | ThreadUnderUse
  | SubshellLowIsolation
  | SlowOptimise
  | TooShortImprecise
  | Acceptable

text \<open>
  The thresholds are compared in binary floating point. A Python float is an IEEE 754
  double: a value is modelled by the real number it denotes, and an operation by the
  exact result rounded to the nearest double, ties to the even mantissa.
  \<open>binary_exponent x\<close> is the integer \<open>e\<close> with \<open>2^e \<le> x < 2^(e+1)\<close> for
  \<open>x > 0\<close>; a double has 53 mantissa bits, and below \<open>2^(-1022)\<close> the spacing stays
  \<open>2^(-1074)\<close>. Infinities and NaN are not modelled: no operation below can overflow on
  the values a run holds.
\<close>

definition round_half_even :: "real \<Rightarrow> int" where
  "round_half_even m =
     (let f = \<lfloor>m\<rfloor>; d = m - of_int f
      in if d < 1 / 2 then f
         else if 1 / 2 < d then f + 1
         else if even f then f else f + 1)"

definition pow2 :: "int \<Rightarrow> real" where
  "pow2 e = (if 0 \<le> e then 2 ^ nat e else 1 / 2 ^ nat (- e))"

definition binary_exponent :: "real \<Rightarrow> int" where
  "binary_exponent x =
     (if 1 \<le> x then bitlen \<lfloor>x\<rfloor> - 1 else - bitlen (\<lceil>1 / x\<rceil> - 1))"

definition round_double :: "real \<Rightarrow> real" where
  "round_double x =
     (if x = 0 then 0
      else (let e = max (binary_exponent \<bar>x\<bar> - 52) (- 1074); q = pow2 e
            in of_int (round_half_even (x / q)) * q))"

text \<open>
  A decimal literal of the source (\<open>0.9\<close>, \<open>0.3\<close>, \<open>0.001\<close>, ...) is the double
  nearest to it; \<open>x * y\<close> on floats and \<open>a / b\<close> on integers (Python's true division)
  are correctly rounded.
\<close>

definition float_literal :: "real \<Rightarrow> real" where
  "float_literal c = round_double c"

definition float_mul :: "real \<Rightarrow> real \<Rightarrow> real" where
  "float_mul x y = round_double (x * y)"

definition int_true_div :: "int \<Rightarrow> int \<Rightarrow> real" where
  "int_true_div a b = round_double (real_of_int a / real_of_int b)"

text \<open>
  \<open>results.get('successful_iterations', 0) / max(results.get('total_iterations', 1), 1)\<close>.
\<close>

definition success_rate_of :: "'m strategy_result_scheme \<Rightarrow> real" where
  "success_rate_of results =
     int_true_div (successful_iterations results) (max (total_iterations results) 1)"

text \<open>
  The reads of the strategy metrics, each with the default of the source's \<open>.get\<close> for
  a key that is missing.
\<close>

definition fork_success_rate :: "'m strategy_result_scheme \<Rightarrow> real" where
  "fork_success_rate results =
     (case parallel_efficiency results of None \<Rightarrow> 1 | Some pe \<Rightarrow> fk_success_rate pe)"

definition thread_efficiency_of :: "'m strategy_result_scheme \<Rightarrow> real" where
  "thread_efficiency_of results =
     (case concurrency_analysis results of None \<Rightarrow> 0 | Some ca \<Rightarrow> ca_thread_efficiency ca)"

definition threads_used_of :: "'m strategy_result_scheme \<Rightarrow> int" where
  "threads_used_of results =
     (case unique_threads_used results of None \<Rightarrow> 0 | Some n \<Rightarrow> n)"

definition isolation_efficiency_of :: "'m strategy_result_scheme \<Rightarrow> real" where
  "isolation_efficiency_of results =
     (case isolation_analysis results of None \<Rightarrow> 0 | Some ia \<Rightarrow> ia_isolation_efficiency ia)"

text \<open>
  \<open>_generate_recommendations\<close>. The list is built by appending, in this order.
  \<open>cpu_count\<close> is \<open>multiprocessing.cpu_count()\<close>, which the function calls itself:
  it is the CPU count of the host that generates the recommendations, not a field of
  the run.
\<close>

definition generate_recommendations :: "int \<Rightarrow> 'm strategy_result_scheme \<Rightarrow> recommendation list" where
  "generate_recommendations cpu_count results =
     (let exec_type = execution_type results;
          exec_times = execution_times results;
          success_rate = success_rate_of results;
          mean_time = st_mean exec_times;
          stdev_time = st_stdev exec_times;
          r1 = (if success_rate < float_literal (9 / 10) then [HighFailureRate] else []);
          r2 = (if stdev_time > float_mul mean_time (float_literal (3 / 10))
                then [HighVariability] else []);
          r3 = (if mean_time < float_literal (1 / 1000) then [TooShortIncreaseWorkload] else []);
          r4 =
            (if exec_type = ''fork'' then
               (if mean_time < float_literal (1 / 100) then [ForkCreationCost] else []) @
               (if fork_success_rate results < float_literal (9 / 10)
                then [ForkHighFailureRate] else [])
             else if exec_type = ''thread'' then
               (if thread_efficiency_of results < float_literal (5 / 10)
                then [ThreadLowEfficiency] else []) @
               (if threads_used_of results < min (total_iterations results) cpu_count
                then [ThreadUnderUse] else [])
             else if exec_type = ''subshell'' then
               (if isolation_efficiency_of results < float_literal (8 / 10)
                then [SubshellLowIsolation] else [])
             else []);
          r5 = (if mean_time > float_literal 1 then [SlowOptimise]
                else if mean_time < float_literal (1 / 1000) then [TooShortImprecise] else []);
          recommendations = r1 @ r2 @ r3 @ r4 @ r5
      in if recommendations = [] then [Acceptable] else recommendations)"

text \<open>
  The values of a run that \<open>_generate_recommendations\<close> reads, each key with its
  default.
\<close>

definition recommendation_inputs ::
  "'m strategy_result_scheme \<Rightarrow> string \<times> int \<times> int \<times> real \<times> real \<times> real \<times> real \<times> int \<times> real" where
  "recommendation_inputs results =
     (execution_type results, successful_iterations results, total_iterations results,
      st_mean (execution_times results), st_stdev (execution_times results),
      fork_success_rate results, thread_efficiency_of results, threads_used_of results,
      isolation_efficiency_of results)"

subsection \<open>The command line: how many iterations\<close>

text \<open>
  The two options of \<open>main\<close> that decide the iteration count, as given on the command
  line (\<open>None\<close>: the option is absent). argparse fills in the defaults 5 and
  \<open>medium\<close> and rejects a test level outside its choices.
\<close>

record cli_options =
  opt_iterations :: "int option"
  opt_test_level :: "string option"

record parsed_args =
  args_iterations :: int
  args_test_level :: string

definition parse_args :: "cli_options \<Rightarrow> error + parsed_args" where
  "parse_args opts =
     (let test_level = (case opt_test_level opts of None \<Rightarrow> ''medium'' | Some l \<Rightarrow> l)
      in if test_level \<notin> set [''light'', ''medium'', ''heavy''] then Inl UsageError
         else Inr \<lparr> args_iterations = (case opt_iterations opts of None \<Rightarrow> 5 | Some k \<Rightarrow> k),
                    args_test_level = test_level \<rparr>)"

definition iterations_map :: "string \<rightharpoonup> int" where
  "iterations_map = [''light'' \<mapsto> 3, ''medium'' \<mapsto> 5, ''heavy'' \<mapsto> 10]"

text \<open>The iteration count that \<open>main\<close> hands to \<open>execute\<close>.\<close>

definition main_iterations :: "cli_options \<Rightarrow> error + int" where
  "main_iterations opts =
     (case parse_args opts of
        Inl e \<Rightarrow> Inl e
      | Inr args \<Rightarrow>
          Inr (case iterations_map (args_test_level args) of
                 Some n \<Rightarrow> n
               | None \<Rightarrow> args_iterations args))"

subsection \<open>Reading results\<close>

text \<open>
  The three keys of a per-iteration dictionary that the timeout scenario is about.
\<close>

definition summary :: "iteration_result \<Rightarrow> int \<times> int \<times> bool" where
  "summary r = (iteration r, exit_code r, success r)"

text \<open>
  The value under \<open>concurrency_analysis.actual_parallelism\<close> of what
  \<open>_analyze_thread_results\<close> returns.
\<close>

definition actual_parallelism_of :: "error + strategy_result \<Rightarrow> real option" where
  "actual_parallelism_of out =
     (case out of
        Inl e \<Rightarrow> None
      | Inr r \<Rightarrow> map_option ca_actual_parallelism (concurrency_analysis r))"

section \<open>Concrete inputs\<close>

text \<open>An iteration that succeeds after a quarter of a second on worker 7.\<close>

definition ok_event :: run_event where
  "ok_event = \<lparr> worker_id = 7, elapsed = 1 / 4, outcome = Completed 0 [], wait = WaitExited \<rparr>"

text \<open>
  An iteration whose child process is still running when the 10 second timeout fires.
\<close>

definition timeout_event :: run_event where
  "timeout_event = \<lparr> worker_id = 7, elapsed = 10 + 1 / 100, outcome = TimeoutExpired, wait = WaitExited \<rparr>"

text \<open>
  Two runs in which the first iteration times out and the second succeeds: indexed by
  the loop index (fork, subshell) and by the task number (thread).
\<close>

definition slow_first_loop :: "int \<Rightarrow> run_event" where
  "slow_first_loop i = (if i = 0 then timeout_event else ok_event)"

definition slow_first_task :: "int \<Rightarrow> run_event" where
  "slow_first_task n = (if n = 1 then timeout_event else ok_event)"

text \<open>
  Two per-iteration dictionaries of the thread strategy.
\<close>

definition half_second_success :: iteration_result where
  "half_second_success =
     \<lparr> iteration = 1, execution_time = 1 / 2, exit_code = 0, success = True,
       child_pid = None, thread_id = Some 7, stderr = None, error_text = None \<rparr>"

definition timed_out_failure :: iteration_result where
  "timed_out_failure =
     \<lparr> iteration = 2, execution_time = 10, exit_code = 124, success = False,
       child_pid = None, thread_id = Some 8, stderr = None, error_text = Some ''timeout'' \<rparr>"

text \<open>
  A successful iteration whose two readings of \<open>time.time()\<close> straddle a clock step
  backwards: its duration is negative.
\<close>

definition stepped_back_success :: iteration_result where
  "stepped_back_success =
     \<lparr> iteration = 1, execution_time = - (1 / 2), exit_code = 0, success = True,
       child_pid = None, thread_id = Some 7, stderr = None, error_text = None \<rparr>"

text \<open>
  A fork run of three successful iterations whose mean is the float \<open>0.0005\<close>, and a
  second dictionary with the same values under the keys the recommendations read and
  other values elsewhere.
\<close>

definition noisy_run :: strategy_result where
  "noisy_run =
     \<lparr> execution_type = ''fork'',
       total_iterations = 3,
       successful_iterations = 3,
       failed_iterations = 0,
       unique_threads_used = None,
       execution_times =
         \<lparr> st_values = [float_literal (5 / 10000), float_literal (5 / 10000),
                        float_literal (5 / 10000)],
           st_mean = float_literal (5 / 10000), st_median = float_literal (5 / 10000),
           st_stdev = 0, st_min = float_literal (5 / 10000),
           st_max = float_literal (5 / 10000) \<rparr>,
       metrics = [],
       parallel_efficiency =
         Some \<lparr> fk_success_rate = 1, fk_failure_rate = 0, fk_average_processes = 3,
                fk_process_creation_efficiency = 1 \<rparr>,
       concurrency_analysis = None,
       isolation_analysis = None \<rparr>"

definition noisy_run_relabelled :: strategy_result where
  "noisy_run_relabelled =
     noisy_run \<lparr> failed_iterations := 7, metrics := [half_second_success],
                 execution_times :=
                   \<lparr> st_values = [], st_mean = float_literal (5 / 10000), st_median = 2,
                     st_stdev = 0, st_min = 3, st_max = 4 \<rparr> \<rparr>"

text \<open>
  A thread run with the same mean, deviation and success rate, in which one worker ran
  all three iterations.
\<close>

definition single_worker_run :: strategy_result where
  "single_worker_run =
     \<lparr> execution_type = ''thread'',
       total_iterations = 3,
       successful_iterations = 3,
       failed_iterations = 0,
       unique_threads_used = Some 1,
       execution_times =
         \<lparr> st_values = [float_literal (5 / 10000), float_literal (5 / 10000),
                        float_literal (5 / 10000)],
           st_mean = float_literal (5 / 10000), st_median = float_literal (5 / 10000),
           st_stdev = 0, st_min = float_literal (5 / 10000),
           st_max = float_literal (5 / 10000) \<rparr>,
       metrics = [],
       parallel_efficiency = None,
       concurrency_analysis =
         Some \<lparr> ca_total_threads = 1, ca_success_rate = 1,
                ca_average_execution_time = float_literal (5 / 10000),
                ca_thread_efficiency = 1, ca_actual_parallelism = 1,
                ca_parallel_overhead = Some 0 \<rparr>,
       isolation_analysis = None \<rparr>"

text \<open>
  An executor object for a Python script, a host, and a world in which the command
  always succeeds quickly.
\<close>

definition python_script :: parallel_executor where
  "python_script =
     \<lparr> self_file_path = ''bench.py'', self_command = [''python3'', ''bench.py''],
       self_compile_info = ''python'' \<rparr>"

definition quiet_host :: system_info where
  "quiet_host =
     \<lparr> si_cpu_count = 4, si_memory_total = 8000000000, si_memory_available = 4000000000,
       si_cpu_percent = 3, si_platform = ''linux'' \<rparr>"

definition calm_world :: world where
  "calm_world =
     \<lparr> w_cpu_count = 4,
       preflight = (\<lambda>t. Completed 0 []),
       warmup_runs = (\<lambda>n. ok_event),
       warmup_sched = [],
       warmup_total_time = 1 / 4,
       measured_runs = (\<lambda>n. ok_event),
       measured_sched = [1, 0],
       measured_total_time = 1 / 2,
       total_elapsed = 1,
       clock = 1700000000,
       host = quiet_host \<rparr>"

text \<open>
  The same world with a pre-flight run that cannot spawn the command, and with one that
  is still running when the pre-flight timeout fires.
\<close>

definition no_such_program :: world where
  "no_such_program = calm_world \<lparr> preflight := (\<lambda>t. FileNotFoundError ''No such file or directory'') \<rparr>"

definition sleepy_program :: world where
  "sleepy_program = calm_world \<lparr> preflight := (\<lambda>t. TimeoutExpired) \<rparr>"

section \<open>Properties\<close>

subsection \<open>Auxiliary facts\<close>

lemma length_py_range: "length (py_range n) = nat n"
  by (simp add: py_range_def)

lemma length_completion_order: "length (completion_order ks xs) = length xs"
proof (induction ks arbitrary: xs)
  case Nil
  show ?case by simp
next
  case (Cons k ks)
  show ?case
  proof (cases "xs = []")
    case True
    then show ?thesis by simp
  next
    case False
    define i where "i = k mod length xs"
    have "i < length xs" using False by (simp add: i_def)
    then have "length (take i xs @ drop (Suc i) xs) = length xs - 1" by simp
    moreover have "0 < length xs" using False by simp
    ultimately show ?thesis using False Cons.IH [of "take i xs @ drop (Suc i) xs"]
      by (simp add: Let_def i_def [symmetric] del: length_append length_take length_drop)
  qed
qed

text \<open>
  A schedule only reorders: every submitted task is completed once, so the shared list
  of the thread strategy holds one dictionary for each task number.
\<close>

lemma completion_order_permutes: "mset (completion_order ks xs) = mset xs"
proof (induction ks arbitrary: xs)
  case Nil
  show ?case by simp
next
  case (Cons k ks)
  show ?case
  proof (cases "xs = []")
    case True
    then show ?thesis by simp
  next
    case False
    define i where "i = k mod length xs"
    have i: "i < length xs" using False by (simp add: i_def)
    have "mset xs = mset (take i xs @ xs ! i # drop (Suc i) xs)"
      using id_take_nth_drop [OF i] by simp
    also have "\<dots> = mset (xs ! i # (take i xs @ drop (Suc i) xs))" by simp
    finally have "mset (xs ! i # (take i xs @ drop (Suc i) xs)) = mset xs" by simp
    then show ?thesis
      using False Cons.IH [of "take i xs @ drop (Suc i) xs"]
      by (simp add: Let_def i_def [symmetric])
  qed
qed

lemma iteration_run_single_iteration: "iteration (run_single_iteration env n) = n"
  by (cases "outcome (env n)") (simp_all add: run_single_iteration_def Let_def)

lemma thread_results_iterations:
  "mset (map iteration (thread_results env sched iterations))
     = mset (map (\<lambda>i. i + 1) (py_range iterations))"
proof -
  have "map iteration (thread_results env sched iterations)
          = completion_order sched (map (\<lambda>i. i + 1) (py_range iterations))"
    by (simp add: thread_results_def iteration_run_single_iteration comp_def)
  then show ?thesis by (simp only: completion_order_permutes)
qed

lemma py_range_1: "py_range 1 = [0]"
  by (simp add: py_range_def)

lemma py_range_2: "py_range 2 = [0, 1]"
  by code_simp

lemma py_range_3: "py_range 3 = [0, 1, 2]"
  by code_simp

lemma fallback_nonempty:
  "(if map execution_time (filter success results) = [] then [0]
    else map execution_time (filter success results)) \<noteq> []"
  by simp

lemma execution_times_dict_props:
  assumes "xs \<noteq> []"
  shows "\<exists>st. execution_times_dict xs = Inr st \<and> st_values st = xs
           \<and> (length xs = 1 \<longrightarrow> st_stdev st = 0)"
  using assms by (cases xs) (simp_all add: execution_times_dict_def)

lemma analyze_fork_counts:
  "\<exists>r. analyze_fork_results results = Inr r
       \<and> total_iterations r = len results
       \<and> successful_iterations r = len (filter success results)
       \<and> failed_iterations r = len results - len (filter success results)"
proof -
  let ?t = "map execution_time (filter success results)"
  let ?xs = "if ?t = [] then [0] else ?t"
  have "?xs \<noteq> []" by simp
  from execution_times_dict_props [OF this] obtain st where "execution_times_dict ?xs = Inr st"
    by blast
  then show ?thesis by (simp add: analyze_fork_results_def Let_def)
qed

lemma analyze_subshell_counts:
  "\<exists>r. analyze_subshell_results results = Inr r
       \<and> total_iterations r = len results
       \<and> successful_iterations r = len (filter success results)
       \<and> failed_iterations r = len results - len (filter success results)"
proof -
  let ?t = "map execution_time (filter success results)"
  let ?xs = "if ?t = [] then [0] else ?t"
  have "?xs \<noteq> []" by simp
  from execution_times_dict_props [OF this] obtain st where "execution_times_dict ?xs = Inr st"
    by blast
  then show ?thesis by (simp add: analyze_subshell_results_def Let_def)
qed

lemma analyze_thread_counts:
  "\<exists>r. analyze_thread_results results total_time = Inr r
       \<and> total_iterations r = len results
       \<and> successful_iterations r = len (filter success results)
       \<and> failed_iterations r = len results - len (filter success results)"
proof (cases "results = []")
  case True
  then show ?thesis by (simp add: analyze_thread_results_def empty_thread_result_def)
next
  case False
  let ?t = "map execution_time (filter success results)"
  let ?xs = "if ?t = [] then [0] else ?t"
  have "?xs \<noteq> []" by simp
  from execution_times_dict_props [OF this] obtain st where "execution_times_dict ?xs = Inr st"
    by blast
  with False show ?thesis by (simp add: analyze_thread_results_def Let_def)
qed

subsection \<open>Iteration counts\<close>



subsection \<open>Timeouts\<close>

text \<open>
  C2. A run of two iterations whose first child process exceeds the 10 second ceiling
  and whose second succeeds. Every strategy records exactly one failed dictionary for
  the first iteration and goes on to the second. The fork and thread strategies record
  the sentinel 124 for it; the subshell strategy records \<open>- 1\<close>.
\<close>

theorem C2_subshell_timeout_code:
  "map summary (subshell_results slow_first_loop 2) = [(1, - 1, False), (2, 0, True)]
   \<and> map summary (fork_results slow_first_loop 2) = [(1, 124, False), (2, 0, True)]
   \<and> map summary (thread_results slow_first_task [] 2) = [(1, 124, False), (2, 0, True)]"
  by (simp add: subshell_results_def fork_results_def thread_results_def py_range_2
      subshell_iteration_def fork_iteration_def run_single_iteration_def summary_def
      slow_first_loop_def slow_first_task_def timeout_event_def ok_event_def)

subsection \<open>Aggregate statistics\<close>

lemma analyze_fork_values:
  "\<exists>r. analyze_fork_results results = Inr r
       \<and> st_values (execution_times r) \<noteq> []
       \<and> (filter success results = [] \<longrightarrow> st_values (execution_times r) = [0])
       \<and> (length (st_values (execution_times r)) = 1 \<longrightarrow> st_stdev (execution_times r) = 0)"
proof -
  let ?xs = "if map execution_time (filter success results) = [] then [0]
             else map execution_time (filter success results)"
  from execution_times_dict_props [OF fallback_nonempty, of results]
  obtain st where st: "execution_times_dict ?xs = Inr st" "st_values st = ?xs"
      "length ?xs = 1 \<longrightarrow> st_stdev st = 0"
    by blast
  have "analyze_fork_results results =
        Inr \<lparr> execution_type = ''fork'', total_iterations = len results,
              successful_iterations = len (filter success results),
              failed_iterations = len results - len (filter success results),
              unique_threads_used = None, execution_times = st, metrics = results,
              parallel_efficiency = Some (calculate_fork_efficiency results),
              concurrency_analysis = None, isolation_analysis = None \<rparr>"
    using st(1) by (simp add: analyze_fork_results_def Let_def)
  with st(2,3) show ?thesis by auto
qed

lemma analyze_subshell_values:
  "\<exists>r. analyze_subshell_results results = Inr r
       \<and> st_values (execution_times r) \<noteq> []
       \<and> (filter success results = [] \<longrightarrow> st_values (execution_times r) = [0])
       \<and> (length (st_values (execution_times r)) = 1 \<longrightarrow> st_stdev (execution_times r) = 0)"
proof -
  let ?xs = "if map execution_time (filter success results) = [] then [0]
             else map execution_time (filter success results)"
  from execution_times_dict_props [OF fallback_nonempty, of results]
  obtain st where st: "execution_times_dict ?xs = Inr st" "st_values st = ?xs"
      "length ?xs = 1 \<longrightarrow> st_stdev st = 0"
    by blast
  have "analyze_subshell_results results =
        Inr \<lparr> execution_type = ''subshell'', total_iterations = len results,
              successful_iterations = len (filter success results),
              failed_iterations = len results - len (filter success results),
              unique_threads_used = None, execution_times = st, metrics = results,
              parallel_efficiency = None, concurrency_analysis = None,
              isolation_analysis = Some (analyze_subshell_isolation results) \<rparr>"
    using st(1) by (simp add: analyze_subshell_results_def Let_def)
  with st(2,3) show ?thesis by auto
qed

lemma analyze_thread_values:
  "\<exists>r. analyze_thread_results results total_time = Inr r
       \<and> st_values (execution_times r) \<noteq> []
       \<and> (filter success results = [] \<longrightarrow> st_values (execution_times r) = [0])
       \<and> (length (st_values (execution_times r)) = 1 \<longrightarrow> st_stdev (execution_times r) = 0)"
proof (cases "results = []")
  case True
  then show ?thesis by (simp add: analyze_thread_results_def empty_thread_result_def)
next
  case False
  let ?xs = "if map execution_time (filter success results) = [] then [0]
             else map execution_time (filter success results)"
  from execution_times_dict_props [OF fallback_nonempty, of results]
  obtain st where st: "execution_times_dict ?xs = Inr st" "st_values st = ?xs"
      "length ?xs = 1 \<longrightarrow> st_stdev st = 0"
    by blast
  have "\<exists>u c. analyze_thread_results results total_time =
        Inr \<lparr> execution_type = ''thread'', total_iterations = len results,
              successful_iterations = len (filter success results),
              failed_iterations = len results - len (filter success results),
              unique_threads_used = u, execution_times = st, metrics = results,
              parallel_efficiency = None, concurrency_analysis = c,
              isolation_analysis = None \<rparr>"
    using st(1) False by (simp add: analyze_thread_results_def Let_def)
  with st(2,3) show ?thesis by auto
qed

text \<open>
  C4. Each of the three analysis functions returns a result (none raises) whose
  \<open>execution_times.values\<close> is not empty; it is \<open>[0.0]\<close> when no iteration
  succeeded; and \<open>stdev\<close> is 0 whenever \<open>values\<close> has one element.
\<close>

theorem C4_values_never_empty:
  "(\<exists>r. analyze_fork_results results = Inr r
       \<and> st_values (execution_times r) \<noteq> []
       \<and> (filter success results = [] \<longrightarrow> st_values (execution_times r) = [0])
       \<and> (length (st_values (execution_times r)) = 1 \<longrightarrow> st_stdev (execution_times r) = 0))
   \<and> (\<exists>r. analyze_thread_results results total_time = Inr r
       \<and> st_values (execution_times r) \<noteq> []
       \<and> (filter success results = [] \<longrightarrow> st_values (execution_times r) = [0])
       \<and> (length (st_values (execution_times r)) = 1 \<longrightarrow> st_stdev (execution_times r) = 0))
   \<and> (\<exists>r. analyze_subshell_results results = Inr r
       \<and> st_values (execution_times r) \<noteq> []
       \<and> (filter success results = [] \<longrightarrow> st_values (execution_times r) = [0])
       \<and> (length (st_values (execution_times r)) = 1 \<longrightarrow> st_stdev (execution_times r) = 0))"
proof (intro conjI)
  show "\<exists>r. analyze_fork_results results = Inr r
       \<and> st_values (execution_times r) \<noteq> []
       \<and> (filter success results = [] \<longrightarrow> st_values (execution_times r) = [0])
       \<and> (length (st_values (execution_times r)) = 1 \<longrightarrow> st_stdev (execution_times r) = 0)"
    by (rule analyze_fork_values)
  show "\<exists>r. analyze_thread_results results total_time = Inr r
       \<and> st_values (execution_times r) \<noteq> []
       \<and> (filter success results = [] \<longrightarrow> st_values (execution_times r) = [0])
       \<and> (length (st_values (execution_times r)) = 1 \<longrightarrow> st_stdev (execution_times r) = 0)"
    by (rule analyze_thread_values)
  show "\<exists>r. analyze_subshell_results results = Inr r
       \<and> st_values (execution_times r) \<noteq> []
       \<and> (filter success results = [] \<longrightarrow> st_values (execution_times r) = [0])
       \<and> (length (st_values (execution_times r)) = 1 \<longrightarrow> st_stdev (execution_times r) = 0)"
    by (rule analyze_subshell_values)
qed

theorem C4_values_never_empty_witness:
  "filter success [timed_out_failure] = []
   \<and> (\<exists>r. analyze_fork_results [timed_out_failure] = Inr r
         \<and> st_values (execution_times r) = [0]
         \<and> length (st_values (execution_times r)) = 1 \<and> st_stdev (execution_times r) = 0)
   \<and> (\<exists>r. analyze_thread_results [timed_out_failure] 10 = Inr r
         \<and> st_values (execution_times r) = [0]
         \<and> length (st_values (execution_times r)) = 1 \<and> st_stdev (execution_times r) = 0)
   \<and> (\<exists>r. analyze_subshell_results [timed_out_failure] = Inr r
         \<and> st_values (execution_times r) = [0]
         \<and> length (st_values (execution_times r)) = 1 \<and> st_stdev (execution_times r) = 0)"
proof -
  have h: "filter success [timed_out_failure] = []"
    by (simp add: timed_out_failure_def)
  note inst = C4_values_never_empty [of "[timed_out_failure]" 10]
  obtain rf where rf: "analyze_fork_results [timed_out_failure] = Inr rf"
      "filter success [timed_out_failure] = [] \<longrightarrow> st_values (execution_times rf) = [0]"
      "length (st_values (execution_times rf)) = 1 \<longrightarrow> st_stdev (execution_times rf) = 0"
    using inst by blast
  obtain rt where rt: "analyze_thread_results [timed_out_failure] 10 = Inr rt"
      "filter success [timed_out_failure] = [] \<longrightarrow> st_values (execution_times rt) = [0]"
      "length (st_values (execution_times rt)) = 1 \<longrightarrow> st_stdev (execution_times rt) = 0"
    using inst by blast
  obtain rs where rs: "analyze_subshell_results [timed_out_failure] = Inr rs"
      "filter success [timed_out_failure] = [] \<longrightarrow> st_values (execution_times rs) = [0]"
      "length (st_values (execution_times rs)) = 1 \<longrightarrow> st_stdev (execution_times rs) = 0"
    using inst by blast
  have vf: "st_values (execution_times rf) = [0]" using rf(2) h by simp
  have vt: "st_values (execution_times rt) = [0]" using rt(2) h by simp
  have vs: "st_values (execution_times rs) = [0]" using rs(2) h by simp
  have "st_stdev (execution_times rf) = 0" using rf(3) vf by simp
  moreover have "st_stdev (execution_times rt) = 0" using rt(3) vt by simp
  moreover have "st_stdev (execution_times rs) = 0" using rs(3) vs by simp
  ultimately show ?thesis using h rf(1) rt(1) rs(1) vf vt vs by simp
qed

subsection \<open>Metrics of the thread strategy\<close>

lemma actual_parallelism_nonempty:
  assumes "results \<noteq> []"
  shows "actual_parallelism_of (analyze_thread_results results total_time) =
         Some (if filter success results \<noteq> []
               then (if total_time > 0
                     then sum_list (map execution_time (filter success results)) / total_time
                     else 1)
               else 0)"
proof -
  let ?xs = "if map execution_time (filter success results) = [] then [0]
             else map execution_time (filter success results)"
  from execution_times_dict_props [OF fallback_nonempty, of results]
  obtain st where st: "execution_times_dict ?xs = Inr st" by blast
  then show ?thesis
    using assms by (simp add: analyze_thread_results_def actual_parallelism_of_def Let_def)
qed

lemma actual_parallelism_empty:
  "actual_parallelism_of (analyze_thread_results [] total_time) = Some 0"
  by (simp add: analyze_thread_results_def actual_parallelism_of_def empty_thread_result_def)

lemma actual_parallelism_value:
  "actual_parallelism_of (analyze_thread_results results total_time) =
         Some (if filter success results \<noteq> []
               then (if total_time > 0
                     then sum_list (map execution_time (filter success results)) / total_time
                     else 1)
               else 0)"
proof (cases "results = []")
  case True
  then show ?thesis by (simp add: actual_parallelism_empty)
next
  case False
  then show ?thesis by (rule actual_parallelism_nonempty)
qed

lemma successful_time_nonneg:
  assumes "\<forall>r \<in> set results. success r \<longrightarrow> 0 \<le> execution_time r"
  shows "0 \<le> sum_list (map execution_time (filter success results))"
  using assms by (intro sum_list_nonneg) auto

text \<open>
  C5, as the code has it. With no successful iteration \<open>actual_parallelism\<close> is 0.
  With at least one, it is the sum of the successful iterations' durations divided by
  the wall-clock time when that time is positive, and the constant 1.0 when the
  wall-clock time is zero or negative (the guard \<open>if parallel_time > 0 else 1.0\<close>). It
  is not negative when no successful duration is.
\<close>

theorem C5_actual_parallelism_guarded:
  "(filter success results = [] \<longrightarrow>
      actual_parallelism_of (analyze_thread_results results total_time) = Some 0)
   \<and> (filter success results \<noteq> [] \<and> 0 < total_time \<longrightarrow>
      actual_parallelism_of (analyze_thread_results results total_time) =
        Some (sum_list (map execution_time (filter success results)) / total_time))
   \<and> (filter success results \<noteq> [] \<and> total_time \<le> 0 \<longrightarrow>
      actual_parallelism_of (analyze_thread_results results total_time) = Some 1)
   \<and> ((\<forall>r \<in> set results. success r \<longrightarrow> 0 \<le> execution_time r) \<longrightarrow>
      (\<exists>p. actual_parallelism_of (analyze_thread_results results total_time) = Some p \<and> 0 \<le> p))"
proof (intro conjI impI)
  assume "filter success results = []"
  then show "actual_parallelism_of (analyze_thread_results results total_time) = Some 0"
    by (simp add: actual_parallelism_value)
next
  assume "filter success results \<noteq> [] \<and> 0 < total_time"
  then show "actual_parallelism_of (analyze_thread_results results total_time) =
        Some (sum_list (map execution_time (filter success results)) / total_time)"
    by (simp add: actual_parallelism_value)
next
  assume "filter success results \<noteq> [] \<and> total_time \<le> 0"
  then show "actual_parallelism_of (analyze_thread_results results total_time) = Some 1"
    by (simp add: actual_parallelism_value)
next
  assume "\<forall>r \<in> set results. success r \<longrightarrow> 0 \<le> execution_time r"
  then have "0 \<le> sum_list (map execution_time (filter success results))"
    by (rule successful_time_nonneg)
  then show "\<exists>p. actual_parallelism_of (analyze_thread_results results total_time) = Some p
               \<and> 0 \<le> p"
    by (simp add: actual_parallelism_value)
qed

text \<open>
  C5 as stated fails where the guard applies: one successful iteration of half a second
  and a wall-clock difference of \<open>- 1\<close> (\<open>time.time()\<close> is not monotonic) give
  1.0, not the quotient \<open>- 0.5\<close>; a wall-clock difference of 0 gives 1.0 too, where
  the quotient does not exist.
\<close>

theorem C5_counterexample:
  "actual_parallelism_of (analyze_thread_results [half_second_success] (- 1)) = Some 1
   \<and> sum_list (map execution_time (filter success [half_second_success])) / (- 1) = - (1 / 2)
   \<and> actual_parallelism_of (analyze_thread_results [half_second_success] 0) = Some 1"
  by (simp add: actual_parallelism_value half_second_success_def)

theorem C5_actual_parallelism_guarded_witness:
  "filter success [timed_out_failure] = []
   \<and> actual_parallelism_of (analyze_thread_results [timed_out_failure] 10) = Some 0
   \<and> filter success [half_second_success, timed_out_failure] \<noteq> [] \<and> (0::real) < 10
   \<and> actual_parallelism_of (analyze_thread_results [half_second_success, timed_out_failure] 10)
       = Some (1 / 20)
   \<and> (- 1 :: real) \<le> 0
   \<and> actual_parallelism_of (analyze_thread_results [half_second_success, timed_out_failure] (- 1))
       = Some 1
   \<and> 0 \<le> execution_time half_second_success \<and> 0 \<le> execution_time timed_out_failure
   \<and> (\<exists>p. actual_parallelism_of
              (analyze_thread_results [half_second_success, timed_out_failure] 10) = Some p
          \<and> 0 \<le> p)"
proof -
  have h1: "filter success [timed_out_failure] = []"
    by (simp add: timed_out_failure_def)
  have h2: "filter success [half_second_success, timed_out_failure] = [half_second_success]"
    by (simp add: timed_out_failure_def half_second_success_def)
  have h3: "\<forall>r \<in> set [half_second_success, timed_out_failure]. success r \<longrightarrow> 0 \<le> execution_time r"
    by (simp add: timed_out_failure_def half_second_success_def)
  have t: "sum_list (map execution_time [half_second_success]) / 10 = 1 / 20"
    by (simp add: half_second_success_def)
  have a: "actual_parallelism_of (analyze_thread_results [timed_out_failure] 10) = Some 0"
    using C5_actual_parallelism_guarded [of "[timed_out_failure]" 10] h1 by blast
  have b: "actual_parallelism_of (analyze_thread_results [half_second_success, timed_out_failure] 10)
       = Some (1 / 20)"
    using C5_actual_parallelism_guarded [of "[half_second_success, timed_out_failure]" 10] h2 t
    by simp
  have c: "actual_parallelism_of
             (analyze_thread_results [half_second_success, timed_out_failure] (- 1)) = Some 1"
    using C5_actual_parallelism_guarded [of "[half_second_success, timed_out_failure]" "- 1"] h2
    by simp
  have d: "\<exists>p. actual_parallelism_of
              (analyze_thread_results [half_second_success, timed_out_failure] 10) = Some p
          \<and> 0 \<le> p"
    using C5_actual_parallelism_guarded [of "[half_second_success, timed_out_failure]" 10] h3
    by blast
  have e: "filter success [half_second_success, timed_out_failure] \<noteq> []" using h2 by simp
  have f: "0 \<le> execution_time half_second_success" "0 \<le> execution_time timed_out_failure"
    by (simp_all add: timed_out_failure_def half_second_success_def)
  from h1 a e b c f d show ?thesis by (intro conjI) simp_all
qed

text \<open>
  Why "not negative" needs non-negative durations: a successful iteration of
  \<open>- 0.5\<close> seconds and a wall-clock time of 1 give \<open>- 0.5\<close>.
\<close>

lemma negative_duration_parallelism:
  "actual_parallelism_of (analyze_thread_results [stepped_back_success] 1) = Some (- (1 / 2))"
  by (simp add: actual_parallelism_value stepped_back_success_def)






subsection \<open>Recommendations\<close>

text \<open>The rounding model: exponent bounds and the rounding error.\<close>

lemma pow2_pos: "0 < pow2 e"
  by (simp add: pow2_def)

lemma binary_exponent_bounds:
  assumes "0 < x"
  shows "pow2 (binary_exponent x) \<le> x \<and> x < pow2 (binary_exponent x + 1)"
proof (cases "1 \<le> x")
  case True
  define n where "n = \<lfloor>x\<rfloor>"
  have n: "0 < n" using True by (simp add: n_def)
  have b: "1 \<le> bitlen n" using n bitlen_nonneg [of n] bitlen_eq_zero_iff [of n] by linarith
  from bitlen_bounds [OF n]
  have lo: "(2::int) ^ nat (bitlen n - 1) \<le> n" and hi: "n < 2 ^ nat (bitlen n)" by simp_all
  have lo': "(2::real) ^ nat (bitlen n - 1) \<le> real_of_int n"
    using lo of_int_le_iff [of "2 ^ nat (bitlen n - 1)" n, where ?'a = real] by simp
  also have "\<dots> \<le> x" by (simp add: n_def)
  finally have 1: "2 ^ nat (bitlen n - 1) \<le> x" .
  have "n + 1 \<le> 2 ^ nat (bitlen n)" using hi by simp
  then have hi': "real_of_int (n + 1) \<le> (2::real) ^ nat (bitlen n)"
    using of_int_le_iff [of "n + 1" "2 ^ nat (bitlen n)", where ?'a = real] by simp
  have "x < real_of_int (n + 1)" by (simp add: n_def)
  with hi' have 2: "x < 2 ^ nat (bitlen n)" by linarith
  have e: "binary_exponent x = bitlen n - 1" using True by (simp add: binary_exponent_def n_def)
  show ?thesis using 1 2 b by (simp add: e pow2_def)
next
  case False
  define y where "y = 1 / x"
  have y: "1 < y" using False assms by (simp add: y_def)
  define n where "n = \<lceil>y\<rceil> - 1"
  have "2 \<le> \<lceil>y\<rceil>" using y by linarith
  then have n: "0 < n" by (simp add: n_def)
  have b: "1 \<le> bitlen n" using n bitlen_nonneg [of n] bitlen_eq_zero_iff [of n] by linarith
  from bitlen_bounds [OF n]
  have lo: "(2::int) ^ nat (bitlen n - 1) \<le> n" and hi: "n < 2 ^ nat (bitlen n)" by simp_all
  have "real_of_int n < y" unfolding n_def by linarith
  moreover have "(2::real) ^ nat (bitlen n - 1) \<le> real_of_int n"
    using lo of_int_le_iff [of "2 ^ nat (bitlen n - 1)" n, where ?'a = real] by simp
  ultimately have 1: "2 ^ nat (bitlen n - 1) < y" by linarith
  have "n + 1 \<le> 2 ^ nat (bitlen n)" using hi by simp
  then have "real_of_int (n + 1) \<le> (2::real) ^ nat (bitlen n)"
    using of_int_le_iff [of "n + 1" "2 ^ nat (bitlen n)", where ?'a = real] by simp
  moreover have "y \<le> real_of_int (n + 1)" unfolding n_def by simp
  ultimately have 2: "y \<le> 2 ^ nat (bitlen n)" by linarith
  have x: "x = 1 / y" using assms by (simp add: y_def)
  have e: "binary_exponent x = - bitlen n" using False by (simp add: binary_exponent_def n_def y_def)
  have lower: "1 / 2 ^ nat (bitlen n) \<le> x"
    unfolding x using 2 y by (simp add: frac_le)
  have upper: "x < 1 / 2 ^ nat (bitlen n - 1)"
    unfolding x using 1 by (simp add: frac_less2)
  have p1: "pow2 (- bitlen n) = 1 / 2 ^ nat (bitlen n)" using b by (simp add: pow2_def)
  have p2: "pow2 (1 - bitlen n) = 1 / 2 ^ nat (bitlen n - 1)"
  proof (cases "bitlen n = 1")
    case True
    then show ?thesis by (simp add: pow2_def)
  next
    case False
    then have "\<not> 0 \<le> 1 - bitlen n" using b by simp
    moreover have "nat (- (1 - bitlen n)) = nat (bitlen n - 1)" by simp
    ultimately show ?thesis by (simp add: pow2_def)
  qed
  show ?thesis using lower upper by (simp add: e p1 p2)
qed

lemma round_half_even_error: "\<bar>real_of_int (round_half_even m) - m\<bar> \<le> 1 / 2"
  by (simp add: round_half_even_def Let_def)

lemma round_double_error:
  assumes "x \<noteq> 0"
  shows "\<bar>round_double x - x\<bar> \<le> pow2 (max (binary_exponent \<bar>x\<bar> - 52) (- 1074)) / 2"
proof -
  define q where "q = pow2 (max (binary_exponent \<bar>x\<bar> - 52) (- 1074))"
  have q: "0 < q" by (simp add: q_def pow2_pos)
  have r: "round_double x = real_of_int (round_half_even (x / q)) * q"
    using assms by (simp add: round_double_def Let_def q_def)
  have "round_double x - x = (real_of_int (round_half_even (x / q)) - x / q) * q"
    using q by (simp add: r left_diff_distrib)
  then have "\<bar>round_double x - x\<bar> = \<bar>real_of_int (round_half_even (x / q)) - x / q\<bar> * q"
    using q by (simp add: abs_mult)
  also have "\<dots> \<le> (1 / 2) * q"
    using round_half_even_error [of "x / q"] q by (intro mult_right_mono) simp_all
  finally show ?thesis by (simp add: q_def)
qed

text \<open>The comparisons of the scenario, and one product that rounds below its threshold.\<close>

lemma float_noise_below_threshold: "float_literal (5 / 10000) < float_literal (1 / 1000)"
  by code_simp

lemma float_noise_below_fork_threshold: "float_literal (5 / 10000) < float_literal (1 / 100)"
  by code_simp

lemma float_noise_not_slow: "\<not> float_literal (5 / 10000) > float_literal 1"
  by code_simp

lemma float_full_rate: "\<not> 1 < float_literal (9 / 10)"
  by code_simp

lemma float_noise_spread: "\<not> 0 > float_mul (float_literal (5 / 10000)) (float_literal (3 / 10))"
  by code_simp

lemma float_product_rounds_down: "float_mul 3 (float_literal (3 / 10)) < float_literal (9 / 10)"
  by code_simp

lemma float_literal_exact: "float_literal 1 = 1" "float_literal (5 / 10) = 1 / 2"
  by code_simp+

lemma round_double_one: "round_double 1 = 1"
  using float_literal_exact(1) by (simp add: float_literal_def)

lemma all_successful_rate: "int_true_div 3 (max 3 1) = 1"
  by (simp add: int_true_div_def round_double_one)

text \<open>When each message is in the list.\<close>

lemma in_set_or_acceptable:
  "y \<noteq> Acceptable \<Longrightarrow> y \<in> set (if b = [] then [Acceptable] else b) \<longleftrightarrow> y \<in> set b"
  by (cases "b = []") auto

lemma rec_high_failure_rate:
  "HighFailureRate \<in> set (generate_recommendations cpu_count results)
     \<longleftrightarrow> success_rate_of results < float_literal (9 / 10)"
  by (simp add: generate_recommendations_def Let_def in_set_or_acceptable)

lemma rec_high_variability:
  "HighVariability \<in> set (generate_recommendations cpu_count results)
     \<longleftrightarrow> st_stdev (execution_times results)
           > float_mul (st_mean (execution_times results)) (float_literal (3 / 10))"
  by (simp add: generate_recommendations_def Let_def in_set_or_acceptable)

lemma rec_too_short_increase:
  "TooShortIncreaseWorkload \<in> set (generate_recommendations cpu_count results)
     \<longleftrightarrow> st_mean (execution_times results) < float_literal (1 / 1000)"
  by (simp add: generate_recommendations_def Let_def in_set_or_acceptable)

lemma rec_fork_creation_cost:
  "ForkCreationCost \<in> set (generate_recommendations cpu_count results)
     \<longleftrightarrow> execution_type results = ''fork''
           \<and> st_mean (execution_times results) < float_literal (1 / 100)"
  by (simp add: generate_recommendations_def Let_def in_set_or_acceptable)

lemma rec_fork_high_failure_rate:
  "ForkHighFailureRate \<in> set (generate_recommendations cpu_count results)
     \<longleftrightarrow> execution_type results = ''fork''
           \<and> fork_success_rate results < float_literal (9 / 10)"
  by (simp add: generate_recommendations_def Let_def in_set_or_acceptable)

lemma rec_thread_low_efficiency:
  "ThreadLowEfficiency \<in> set (generate_recommendations cpu_count results)
     \<longleftrightarrow> execution_type results = ''thread''
           \<and> thread_efficiency_of results < float_literal (5 / 10)"
  by (auto simp add: generate_recommendations_def Let_def in_set_or_acceptable)

lemma rec_thread_under_use:
  "ThreadUnderUse \<in> set (generate_recommendations cpu_count results)
     \<longleftrightarrow> execution_type results = ''thread''
           \<and> threads_used_of results < min (total_iterations results) cpu_count"
  by (auto simp add: generate_recommendations_def Let_def in_set_or_acceptable)

lemma rec_subshell_low_isolation:
  "SubshellLowIsolation \<in> set (generate_recommendations cpu_count results)
     \<longleftrightarrow> execution_type results = ''subshell''
           \<and> isolation_efficiency_of results < float_literal (8 / 10)"
  by (auto simp add: generate_recommendations_def Let_def in_set_or_acceptable)

lemma rec_slow:
  "SlowOptimise \<in> set (generate_recommendations cpu_count results)
     \<longleftrightarrow> st_mean (execution_times results) > float_literal 1"
  by (simp add: generate_recommendations_def Let_def in_set_or_acceptable)

lemma rec_too_short_imprecise:
  "TooShortImprecise \<in> set (generate_recommendations cpu_count results)
     \<longleftrightarrow> \<not> st_mean (execution_times results) > float_literal 1
           \<and> st_mean (execution_times results) < float_literal (1 / 1000)"
  by (simp add: generate_recommendations_def Let_def in_set_or_acceptable)


lemma rec_acceptable:
  "Acceptable \<in> set (generate_recommendations cpu_count results)
     \<longleftrightarrow> \<not> success_rate_of results < float_literal (9 / 10)
         \<and> \<not> st_stdev (execution_times results)
               > float_mul (st_mean (execution_times results)) (float_literal (3 / 10))
         \<and> \<not> st_mean (execution_times results) < float_literal (1 / 1000)
         \<and> \<not> (execution_type results = ''fork''
               \<and> (st_mean (execution_times results) < float_literal (1 / 100)
                    \<or> fork_success_rate results < float_literal (9 / 10)))
         \<and> \<not> (execution_type results = ''thread''
               \<and> (thread_efficiency_of results < float_literal (5 / 10)
                    \<or> threads_used_of results < min (total_iterations results) cpu_count))
         \<and> \<not> (execution_type results = ''subshell''
               \<and> isolation_efficiency_of results < float_literal (8 / 10))
         \<and> \<not> st_mean (execution_times results) > float_literal 1"
  by (auto simp add: generate_recommendations_def Let_def)

lemma recommendations_depend_on_inputs:
  assumes "recommendation_inputs results = recommendation_inputs results'"
  shows "generate_recommendations cpu_count results = generate_recommendations cpu_count results'"
  using assms
  by (simp add: generate_recommendations_def recommendation_inputs_def success_rate_of_def
      Let_def)

lemma noise_scenario:
  assumes "st_mean (execution_times results) = float_literal (5 / 10000)"
    and "st_stdev (execution_times results) = 0"
    and "success_rate_of results = 1"
  shows "TooShortIncreaseWorkload \<in> set (generate_recommendations cpu_count results)"
    and "HighFailureRate \<notin> set (generate_recommendations cpu_count results)"
    and "HighVariability \<notin> set (generate_recommendations cpu_count results)"
  using assms float_noise_below_threshold float_full_rate float_noise_spread
  by (simp_all add: rec_too_short_increase rec_high_failure_rate rec_high_variability)

text \<open>
  The comparison \<open>stdev > mean * 0.3\<close> is one of floats: at mean 3.0 the product is the
  double below 0.9, so a deviation of 0.9 is reported as high variability.
\<close>

lemma variability_at_rounded_product:
  assumes "st_mean (execution_times results) = 3"
    and "st_stdev (execution_times results) = float_literal (9 / 10)"
  shows "HighVariability \<in> set (generate_recommendations cpu_count results)"
  using assms float_product_rounds_down by (simp add: rec_high_variability)

lemma single_worker_1:
  "generate_recommendations 1 single_worker_run = [TooShortIncreaseWorkload, TooShortImprecise]"
  by code_simp

lemma single_worker_8:
  "generate_recommendations 8 single_worker_run
     = [TooShortIncreaseWorkload, ThreadUnderUse, TooShortImprecise]"
  by code_simp


text \<open>
  C7, as the code has it. The recommendations are a function of the values the run
  holds under the keys \<open>execution_type\<close>, \<open>successful_iterations\<close>,
  \<open>total_iterations\<close>, \<open>execution_times.mean\<close>, \<open>execution_times.stdev\<close> and
  the strategy metrics, and of the CPU count of the host that generates them: each
  message is in the list exactly when its fixed threshold is crossed, and two runs that
  agree on those values get the same list on the same host. For a run with mean 0.0005,
  standard deviation 0 and success rate 1.0, of any execution type and on any host, the
  list contains the message that the execution time is too short and the workload should
  be increased, and contains neither the message about a high failure rate nor the one
  about high variability; the fork strategy's own failure-rate message is absent when
  the fork success rate of the run is at least 0.9.
\<close>

theorem C7_recommendation_thresholds:
  "(HighFailureRate \<in> set (generate_recommendations cpu_count results)
      \<longleftrightarrow> success_rate_of results < float_literal (9 / 10))
   \<and> (HighVariability \<in> set (generate_recommendations cpu_count results)
      \<longleftrightarrow> st_stdev (execution_times results)
            > float_mul (st_mean (execution_times results)) (float_literal (3 / 10)))
   \<and> (TooShortIncreaseWorkload \<in> set (generate_recommendations cpu_count results)
      \<longleftrightarrow> st_mean (execution_times results) < float_literal (1 / 1000))
   \<and> (ForkCreationCost \<in> set (generate_recommendations cpu_count results)
      \<longleftrightarrow> execution_type results = ''fork''
            \<and> st_mean (execution_times results) < float_literal (1 / 100))
   \<and> (ForkHighFailureRate \<in> set (generate_recommendations cpu_count results)
      \<longleftrightarrow> execution_type results = ''fork''
            \<and> fork_success_rate results < float_literal (9 / 10))
   \<and> (ThreadLowEfficiency \<in> set (generate_recommendations cpu_count results)
      \<longleftrightarrow> execution_type results = ''thread''
            \<and> thread_efficiency_of results < float_literal (5 / 10))
   \<and> (ThreadUnderUse \<in> set (generate_recommendations cpu_count results)
      \<longleftrightarrow> execution_type results = ''thread''
            \<and> threads_used_of results < min (total_iterations results) cpu_count)
   \<and> (SubshellLowIsolation \<in> set (generate_recommendations cpu_count results)
      \<longleftrightarrow> execution_type results = ''subshell''
            \<and> isolation_efficiency_of results < float_literal (8 / 10))
   \<and> (SlowOptimise \<in> set (generate_recommendations cpu_count results)
      \<longleftrightarrow> st_mean (execution_times results) > float_literal 1)
   \<and> (TooShortImprecise \<in> set (generate_recommendations cpu_count results)
      \<longleftrightarrow> \<not> st_mean (execution_times results) > float_literal 1
            \<and> st_mean (execution_times results) < float_literal (1 / 1000))
   \<and> (Acceptable \<in> set (generate_recommendations cpu_count results)
      \<longleftrightarrow> \<not> success_rate_of results < float_literal (9 / 10)
          \<and> \<not> st_stdev (execution_times results)
                > float_mul (st_mean (execution_times results)) (float_literal (3 / 10))
          \<and> \<not> st_mean (execution_times results) < float_literal (1 / 1000)
          \<and> \<not> (execution_type results = ''fork''
                \<and> (st_mean (execution_times results) < float_literal (1 / 100)
                     \<or> fork_success_rate results < float_literal (9 / 10)))
          \<and> \<not> (execution_type results = ''thread''
                \<and> (thread_efficiency_of results < float_literal (5 / 10)
                     \<or> threads_used_of results < min (total_iterations results) cpu_count))
          \<and> \<not> (execution_type results = ''subshell''
                \<and> isolation_efficiency_of results < float_literal (8 / 10))
          \<and> \<not> st_mean (execution_times results) > float_literal 1)
   \<and> (recommendation_inputs results = recommendation_inputs other \<longrightarrow>
        generate_recommendations cpu_count results = generate_recommendations cpu_count other)
   \<and> (st_mean (execution_times results) = float_literal (5 / 10000)
        \<and> st_stdev (execution_times results) = 0
        \<and> success_rate_of results = 1 \<longrightarrow>
        TooShortIncreaseWorkload \<in> set (generate_recommendations cpu_count results)
        \<and> HighFailureRate \<notin> set (generate_recommendations cpu_count results)
        \<and> HighVariability \<notin> set (generate_recommendations cpu_count results)
        \<and> (float_literal (9 / 10) \<le> fork_success_rate results \<longrightarrow>
             ForkHighFailureRate \<notin> set (generate_recommendations cpu_count results)))"
proof (intro conjI)
  show "recommendation_inputs results = recommendation_inputs other \<longrightarrow>
        generate_recommendations cpu_count results = generate_recommendations cpu_count other"
    using recommendations_depend_on_inputs [of results other cpu_count] by blast
  show "st_mean (execution_times results) = float_literal (5 / 10000)
        \<and> st_stdev (execution_times results) = 0
        \<and> success_rate_of results = 1 \<longrightarrow>
        TooShortIncreaseWorkload \<in> set (generate_recommendations cpu_count results)
        \<and> HighFailureRate \<notin> set (generate_recommendations cpu_count results)
        \<and> HighVariability \<notin> set (generate_recommendations cpu_count results)
        \<and> (float_literal (9 / 10) \<le> fork_success_rate results \<longrightarrow>
             ForkHighFailureRate \<notin> set (generate_recommendations cpu_count results))"
    using noise_scenario [of results cpu_count]
      rec_fork_high_failure_rate [of cpu_count results]
    by (simp add: not_less)
qed (rule rec_high_failure_rate rec_high_variability rec_too_short_increase
      rec_fork_creation_cost rec_fork_high_failure_rate rec_thread_low_efficiency
      rec_thread_under_use rec_subshell_low_isolation rec_slow rec_too_short_imprecise
      rec_acceptable)+

text \<open>
  C7 as stated fails in its general half: the list is not a function of the run alone.
  The same thread run, with mean 0.0005, standard deviation 0 and success rate 1.0, gets
  the under-use message on a host with eight CPUs and not on a host with one.
\<close>

theorem C7_counterexample:
  "generate_recommendations 1 single_worker_run
     = [TooShortIncreaseWorkload, TooShortImprecise]
   \<and> generate_recommendations 8 single_worker_run
     = [TooShortIncreaseWorkload, ThreadUnderUse, TooShortImprecise]"
  by (simp only: single_worker_1 single_worker_8)

lemma noisy_run_inputs: "recommendation_inputs noisy_run_relabelled = recommendation_inputs noisy_run"
  by (simp add: recommendation_inputs_def noisy_run_relabelled_def noisy_run_def
      fork_success_rate_def thread_efficiency_of_def threads_used_of_def
      isolation_efficiency_of_def)

theorem C7_recommendation_thresholds_witness:
  "st_mean (execution_times noisy_run) = float_literal (5 / 10000)
   \<and> st_stdev (execution_times noisy_run) = 0
   \<and> success_rate_of noisy_run = 1
   \<and> float_literal (9 / 10) \<le> fork_success_rate noisy_run
   \<and> TooShortIncreaseWorkload \<in> set (generate_recommendations 4 noisy_run)
   \<and> HighFailureRate \<notin> set (generate_recommendations 4 noisy_run)
   \<and> HighVariability \<notin> set (generate_recommendations 4 noisy_run)
   \<and> ForkHighFailureRate \<notin> set (generate_recommendations 4 noisy_run)
   \<and> recommendation_inputs noisy_run_relabelled = recommendation_inputs noisy_run
   \<and> generate_recommendations 4 noisy_run_relabelled = generate_recommendations 4 noisy_run"
proof -
  have h1: "st_mean (execution_times noisy_run) = float_literal (5 / 10000)"
    unfolding noisy_run_def by simp
  have h2: "st_stdev (execution_times noisy_run) = 0" by (simp add: noisy_run_def)
  have h3: "success_rate_of noisy_run = 1"
    by (simp add: noisy_run_def success_rate_of_def int_true_div_def round_double_one)
  have h4: "float_literal (9 / 10) \<le> fork_success_rate noisy_run"
    using float_full_rate by (simp add: noisy_run_def fork_success_rate_def)
  note h5 = noisy_run_inputs
  have scenario: "st_mean (execution_times noisy_run) = float_literal (5 / 10000)
        \<and> st_stdev (execution_times noisy_run) = 0
        \<and> success_rate_of noisy_run = 1 \<longrightarrow>
        TooShortIncreaseWorkload \<in> set (generate_recommendations 4 noisy_run)
        \<and> HighFailureRate \<notin> set (generate_recommendations 4 noisy_run)
        \<and> HighVariability \<notin> set (generate_recommendations 4 noisy_run)
        \<and> (float_literal (9 / 10) \<le> fork_success_rate noisy_run \<longrightarrow>
             ForkHighFailureRate \<notin> set (generate_recommendations 4 noisy_run))"
    using C7_recommendation_thresholds [of 4 noisy_run noisy_run] by (elim conjE) assumption
  have depends: "recommendation_inputs noisy_run_relabelled = recommendation_inputs noisy_run
        \<longrightarrow> generate_recommendations 4 noisy_run_relabelled
              = generate_recommendations 4 noisy_run"
    using C7_recommendation_thresholds [of 4 noisy_run_relabelled noisy_run]
    by (elim conjE) assumption
  have a: "TooShortIncreaseWorkload \<in> set (generate_recommendations 4 noisy_run)
        \<and> HighFailureRate \<notin> set (generate_recommendations 4 noisy_run)
        \<and> HighVariability \<notin> set (generate_recommendations 4 noisy_run)
        \<and> ForkHighFailureRate \<notin> set (generate_recommendations 4 noisy_run)"
    using scenario h1 h2 h3 h4 by (simp only: simp_thms)
  have b: "generate_recommendations 4 noisy_run_relabelled = generate_recommendations 4 noisy_run"
    using depends h5 by (simp only: simp_thms)
  from h1 h2 h3 h4 h5 a b show ?thesis by (intro conjI) (simp_all only: simp_thms)
qed

subsection \<open>The command line\<close>

text \<open>
  C8. With \<open>--iterations 7\<close> and no \<open>--test-level\<close>, \<open>main\<close> runs 5
  iterations, not 7: \<open>--test-level\<close> defaults to \<open>medium\<close>, which is a key of
  \<open>iterations_map\<close>, so the fallback \<open>args.iterations\<close> of
  \<open>iterations_map.get\<close> is never taken. A given test level does override the count.
\<close>

theorem C8_iterations_option_ignored:
  "main_iterations \<lparr> opt_iterations = Some 7, opt_test_level = None \<rparr> = Inr 5
   \<and> main_iterations \<lparr> opt_iterations = None, opt_test_level = None \<rparr> = Inr 5
   \<and> main_iterations \<lparr> opt_iterations = Some 7, opt_test_level = Some ''heavy'' \<rparr> = Inr 10"
  by (simp add: main_iterations_def parse_args_def iterations_map_def)

subsection \<open>The orchestrator\<close>

lemma fork_returns:
  assumes "0 \<le> iterations"
  shows "\<exists>r. analyze_fork_results (fork_results env iterations) = Inr r
           \<and> successful_iterations r + failed_iterations r = total_iterations r
           \<and> total_iterations r = iterations"
  using analyze_fork_counts [of "fork_results env iterations"] assms
  by (auto simp: fork_results_def length_py_range)

lemma subshell_returns:
  assumes "0 \<le> iterations"
  shows "\<exists>r. analyze_subshell_results (subshell_results env iterations) = Inr r
           \<and> successful_iterations r + failed_iterations r = total_iterations r
           \<and> total_iterations r = iterations"
  using analyze_subshell_counts [of "subshell_results env iterations"] assms
  by (auto simp: subshell_results_def length_py_range)

lemma thread_returns:
  assumes "0 \<le> iterations"
  shows "\<exists>r. analyze_thread_results (thread_results env sched iterations) total_time = Inr r
           \<and> successful_iterations r + failed_iterations r = total_iterations r
           \<and> total_iterations r = iterations"
  using analyze_thread_counts [of "thread_results env sched iterations" total_time] assms
  by (auto simp: thread_results_def length_py_range length_completion_order)

lemma execute_with_threads_runs:
  assumes "1 \<le> iterations" and "1 \<le> cpu_count"
  shows "execute_with_threads cpu_count env sched total_time command iterations =
           (map (\<lambda>i. command) (py_range iterations),
            analyze_thread_results (thread_results env sched iterations) total_time)"
proof -
  have "\<not> min iterations (min cpu_count 8) \<le> 0" using assms by simp
  then show ?thesis by (simp add: execute_with_threads_def Let_def)
qed

lemma dispatch_fork:
  "dispatch w command ''fork'' iterations =
     (map (\<lambda>i. Run Measured command) (py_range iterations),
      analyze_fork_results (fork_results (measured_runs w) iterations))"
  by (simp add: dispatch_def execute_with_fork_def comp_def)

lemma dispatch_subshell:
  "dispatch w command ''subshell'' iterations =
     (map (\<lambda>i. Run Measured command) (py_range iterations),
      analyze_subshell_results (subshell_results (measured_runs w) iterations))"
  by (simp add: dispatch_def execute_with_subshells_def comp_def)

lemma dispatch_thread_one:
  assumes "1 \<le> w_cpu_count w"
  shows "dispatch w command ''thread'' 1 =
     ([Run Measured command],
      analyze_thread_results (thread_results (measured_runs w) (measured_sched w) 1)
        (measured_total_time w))"
  using assms by (simp add: dispatch_def execute_with_threads_runs py_range_1)

lemma dispatch_thread_many:
  assumes "1 < iterations" and "1 \<le> w_cpu_count w"
  shows "dispatch w command ''thread'' iterations =
     (Run Warmup command # map (\<lambda>i. Run Measured command) (py_range iterations),
      analyze_thread_results (thread_results (measured_runs w) (measured_sched w) iterations)
        (measured_total_time w))"
  using assms by (simp add: dispatch_def execute_with_threads_runs py_range_1 comp_def)

lemma dispatch_unsupported:
  assumes "exec_type \<noteq> ''fork''" and "exec_type \<noteq> ''thread''" and "exec_type \<noteq> ''subshell''"
  shows "dispatch w command exec_type iterations = ([], Inl (UnsupportedExecutionType exec_type))"
  using assms by (simp add: dispatch_def)

lemma measured_iterations_measured:
  "measured_iterations (Run Preflight c # map (\<lambda>i. Run Measured c) xs @ [Saved])
     = length xs"
  by (simp add: measured_iterations_def)

lemma measured_iterations_warm:
  "measured_iterations
     (Run Preflight c # Run Warmup c # map (\<lambda>i. Run Measured c) xs @ [Saved])
     = length xs"
  by (simp add: measured_iterations_def)

lemma commands_executed_warm:
  "commands_executed
     (Run Preflight c # Run Warmup c # map (\<lambda>i. Run Measured c) xs @ [Saved])
     = length xs + 2"
  by (simp add: commands_executed_def)

lemma execute_preflight_failed:
  assumes "\<not> test_command_optimized w (resolved_command self args) exec_type"
  shows "execute self w exec_type iterations args =
           ([Run Preflight (resolved_command self args)],
            Inl (CommandNotRunnable (resolved_command self args)))"
  using assms by (simp add: execute_def Let_def)

lemma execute_dispatch_error:
  assumes "test_command_optimized w (resolved_command self args) exec_type"
    and "dispatch w (resolved_command self args) exec_type iterations = (evs, Inl e)"
  shows "execute self w exec_type iterations args =
           (Run Preflight (resolved_command self args) # evs, Inl e)"
  using assms by (simp add: execute_def Let_def)

lemma execute_dispatch_result:
  assumes "test_command_optimized w (resolved_command self args) exec_type"
    and "dispatch w (resolved_command self args) exec_type iterations = (evs, Inr r)"
  shows "execute self w exec_type iterations args =
           (Run Preflight (resolved_command self args) # evs @ [Saved],
            Inr (strategy_result.extend r
                   (benchmark_run.fields (total_elapsed w) (self_file_path self)
                      (resolved_command self args) (self_compile_info self) (clock w)
                      (get_system_info w))))"
  using assms by (simp add: execute_def Let_def)

lemma truncate_extend: "strategy_result.truncate (strategy_result.extend r m) = r"
  by (simp add: strategy_result.defs)

lemma total_extend: "total_iterations (strategy_result.extend r m) = total_iterations r"
  by (simp add: strategy_result.defs)

lemma test_command_optimized_iff:
  "(\<not> test_command_optimized w command exec_type) \<longleftrightarrow>
     (\<exists>s. preflight w (if exec_type = ''thread'' then 1 else 2) = FileNotFoundError s
        \<or> preflight w (if exec_type = ''thread'' then 1 else 2) = OSError s)"
  by (cases "preflight w (if exec_type = ''thread'' then 1 else 2)")
    (simp_all add: test_command_optimized_def Let_def)

lemma test_command_optimized_timeout:
  "preflight w (if exec_type = ''thread'' then 1 else 2) = TimeoutExpired
     \<Longrightarrow> test_command_optimized w command exec_type"
  by (simp add: test_command_optimized_def Let_def)

lemma execute_fork_runs:
  assumes "test_command_optimized w (resolved_command self args) ''fork''" and "1 \<le> iterations"
  shows "\<exists>run. snd (execute self w ''fork'' iterations args) = Inr run
           \<and> total_iterations run = iterations
           \<and> measured_iterations (fst (execute self w ''fork'' iterations args)) = nat iterations"
proof -
  from fork_returns [of iterations "measured_runs w"] assms(2)
  obtain r where r: "analyze_fork_results (fork_results (measured_runs w) iterations) = Inr r"
      "total_iterations r = iterations"
    by auto
  show ?thesis
    using execute_dispatch_result [OF assms(1), of iterations _ r] r
    by (simp add: dispatch_fork total_extend measured_iterations_measured length_py_range)
qed

lemma execute_subshell_runs:
  assumes "test_command_optimized w (resolved_command self args) ''subshell''"
    and "1 \<le> iterations"
  shows "\<exists>run. snd (execute self w ''subshell'' iterations args) = Inr run
           \<and> total_iterations run = iterations
           \<and> measured_iterations (fst (execute self w ''subshell'' iterations args))
               = nat iterations"
proof -
  from subshell_returns [of iterations "measured_runs w"] assms(2)
  obtain r where r:
      "analyze_subshell_results (subshell_results (measured_runs w) iterations) = Inr r"
      "total_iterations r = iterations"
    by auto
  show ?thesis
    using execute_dispatch_result [OF assms(1), of iterations _ r] r
    by (simp add: dispatch_subshell total_extend measured_iterations_measured length_py_range)
qed

lemma execute_thread_runs:
  assumes "test_command_optimized w (resolved_command self args) ''thread''"
    and "1 \<le> iterations" and "1 \<le> w_cpu_count w"
  shows "\<exists>run. snd (execute self w ''thread'' iterations args) = Inr run
           \<and> total_iterations run = iterations
           \<and> measured_iterations (fst (execute self w ''thread'' iterations args))
               = nat iterations"
proof -
  from thread_returns [of iterations "measured_runs w" "measured_sched w" "measured_total_time w"]
    assms(2)
  obtain r where r:
      "analyze_thread_results (thread_results (measured_runs w) (measured_sched w) iterations)
         (measured_total_time w) = Inr r"
      "total_iterations r = iterations"
    by auto
  show ?thesis
  proof (cases "iterations = 1")
    case True
    then show ?thesis
      using execute_dispatch_result [OF assms(1), of 1 _ r] r assms(3)
      by (simp add: dispatch_thread_one total_extend measured_iterations_def)
  next
    case False
    then have many: "1 < iterations" using assms(2) by simp
    show ?thesis
      using execute_dispatch_result [OF assms(1), of iterations _ r] r
      by (simp add: dispatch_thread_many [OF many assms(3)] total_extend
          measured_iterations_warm length_py_range)
  qed
qed

lemma execute_calm_unsupported:
  "execute python_script calm_world ''process'' 3 None =
     ([Run Preflight [''python3'', ''bench.py'']],
      Inl (UnsupportedExecutionType ''process''))"
  by (simp add: execute_def dispatch_def test_command_optimized_def resolved_command_def
      calm_world_def python_script_def)

text \<open>
  C3, as the code has it. For a recognised execution type and \<open>N \<ge> 1\<close> iterations
  (on a host with at least one CPU), \<open>execute\<close> ends in an error with no measured
  iteration run exactly when the pre-flight run of the resolved command raised
  \<open>FileNotFoundError\<close> or \<open>OSError\<close>. When the pre-flight run times out,
  \<open>execute\<close> returns a result of \<open>N\<close> iterations, all \<open>N\<close> of them run.
\<close>

theorem C3_preflight_decides:
  assumes "exec_type = ''fork'' \<or> exec_type = ''thread'' \<or> exec_type = ''subshell''"
    and "1 \<le> iterations" and "1 \<le> w_cpu_count w"
  shows "(((\<exists>e. snd (execute self w exec_type iterations args) = Inl e)
           \<and> measured_iterations (fst (execute self w exec_type iterations args)) = 0)
          \<longleftrightarrow> (\<exists>s. preflight w (if exec_type = ''thread'' then 1 else 2) = FileNotFoundError s
                 \<or> preflight w (if exec_type = ''thread'' then 1 else 2) = OSError s))
       \<and> (preflight w (if exec_type = ''thread'' then 1 else 2) = TimeoutExpired \<longrightarrow>
            (\<exists>run. snd (execute self w exec_type iterations args) = Inr run
                \<and> total_iterations run = iterations)
            \<and> measured_iterations (fst (execute self w exec_type iterations args))
                = nat iterations)"
proof -
  let ?c = "resolved_command self args"
  let ?out = "execute self w exec_type iterations args"
  have runs: "\<exists>run. snd ?out = Inr run \<and> total_iterations run = iterations
                \<and> measured_iterations (fst ?out) = nat iterations"
    if "test_command_optimized w ?c exec_type"
    using assms(1) that execute_fork_runs [of w self args iterations]
      execute_thread_runs [of w self args iterations]
      execute_subshell_runs [of w self args iterations] assms(2,3)
    by blast
  have aborted: "(\<exists>e. snd ?out = Inl e) \<and> measured_iterations (fst ?out) = 0"
    if "\<not> test_command_optimized w ?c exec_type"
    using execute_preflight_failed [OF that, of iterations]
    by (simp add: measured_iterations_def)
  have "((\<exists>e. snd ?out = Inl e) \<and> measured_iterations (fst ?out) = 0)
          \<longleftrightarrow> \<not> test_command_optimized w ?c exec_type"
    using runs aborted by fastforce
  moreover have "preflight w (if exec_type = ''thread'' then 1 else 2) = TimeoutExpired \<longrightarrow>
            (\<exists>run. snd ?out = Inr run \<and> total_iterations run = iterations)
            \<and> measured_iterations (fst ?out) = nat iterations"
    using runs test_command_optimized_timeout [of w exec_type ?c] by blast
  ultimately show ?thesis
    by (simp only: test_command_optimized_iff [of w ?c exec_type])
qed

text \<open>
  C3 as stated fails for an execution type that is not recognised: the pre-flight run
  completes with return code 0, and \<open>execute\<close> still ends in an error before any
  measured iteration.
\<close>

theorem C3_counterexample:
  "snd (execute python_script calm_world ''process'' 3 None)
     = Inl (UnsupportedExecutionType ''process'')
   \<and> measured_iterations (fst (execute python_script calm_world ''process'' 3 None)) = 0
   \<and> preflight calm_world 2 = Completed 0 []"
proof -
  have "preflight calm_world 2 = Completed 0 []" by (simp add: calm_world_def)
  then show ?thesis by (simp add: execute_calm_unsupported measured_iterations_def)
qed

theorem C3_preflight_decides_witness:
  "(''fork'' = ''fork'' \<or> ''fork'' = ''thread'' \<or> ''fork'' = ''subshell'')
   \<and> (1::int) \<le> 3 \<and> 1 \<le> w_cpu_count sleepy_program \<and> 1 \<le> w_cpu_count no_such_program
   \<and> preflight sleepy_program 2 = TimeoutExpired
   \<and> (\<exists>run. snd (execute python_script sleepy_program ''fork'' 3 None) = Inr run
          \<and> total_iterations run = 3)
   \<and> measured_iterations (fst (execute python_script sleepy_program ''fork'' 3 None)) = 3
   \<and> preflight no_such_program 2 = FileNotFoundError ''No such file or directory''
   \<and> (\<exists>e. snd (execute python_script no_such_program ''fork'' 3 None) = Inl e)
   \<and> measured_iterations (fst (execute python_script no_such_program ''fork'' 3 None)) = 0"
proof -
  have ty: "''fork'' = ''fork'' \<or> ''fork'' = ''thread'' \<or> ''fork'' = ''subshell''" by simp
  have n: "(1::int) \<le> 3" by simp
  have c1: "1 \<le> w_cpu_count sleepy_program" by (simp add: sleepy_program_def calm_world_def)
  have c2: "1 \<le> w_cpu_count no_such_program" by (simp add: no_such_program_def calm_world_def)
  have p1: "preflight sleepy_program 2 = TimeoutExpired" by (simp add: sleepy_program_def)
  have p2: "preflight no_such_program 2 = FileNotFoundError ''No such file or directory''"
    by (simp add: no_such_program_def)
  have a: "(\<exists>run. snd (execute python_script sleepy_program ''fork'' 3 None) = Inr run
          \<and> total_iterations run = 3)
        \<and> measured_iterations (fst (execute python_script sleepy_program ''fork'' 3 None)) = 3"
    using C3_preflight_decides [OF ty n c1, of python_script None] p1 by simp
  have b: "(\<exists>e. snd (execute python_script no_such_program ''fork'' 3 None) = Inl e)
        \<and> measured_iterations (fst (execute python_script no_such_program ''fork'' 3 None)) = 0"
    using C3_preflight_decides [OF ty n c2, of python_script None] p2 by simp
  from ty n c1 c2 p1 p2 a b show ?thesis by blast
qed

text \<open>
  C9, as the code has it. For an execution type outside fork, thread and subshell,
  \<open>execute\<close> raises; the only thing it has done by then is the pre-flight run of the
  resolved command: no warm-up or measured iteration is run and nothing is saved. The
  error is the unsupported-type error whenever the pre-flight check passes (otherwise it
  is the pre-flight error).
\<close>

theorem C9_unsupported_type_after_preflight:
  assumes "exec_type \<noteq> ''fork''" and "exec_type \<noteq> ''thread''" and "exec_type \<noteq> ''subshell''"
  shows "(\<exists>e. snd (execute self w exec_type iterations args) = Inl e)
       \<and> fst (execute self w exec_type iterations args)
           = [Run Preflight (resolved_command self args)]
       \<and> (test_command_optimized w (resolved_command self args) exec_type \<longrightarrow>
            snd (execute self w exec_type iterations args)
              = Inl (UnsupportedExecutionType exec_type))"
proof (cases "test_command_optimized w (resolved_command self args) exec_type")
  case True
  from execute_dispatch_error [OF True dispatch_unsupported [OF assms]]
  show ?thesis by simp
next
  case False
  from execute_preflight_failed [OF False]
  show ?thesis using False by simp
qed

text \<open>
  C9 as stated fails in its parenthesis: the resolved command is executed once, by the
  pre-flight check, before the execution type is looked at.
\<close>

theorem C9_counterexample:
  "commands_executed (fst (execute python_script calm_world ''process'' 3 None)) = 1
   \<and> fst (execute python_script calm_world ''process'' 3 None)
       = [Run Preflight [''python3'', ''bench.py'']]"
  by (simp add: execute_calm_unsupported commands_executed_def)

theorem C9_unsupported_type_after_preflight_witness:
  "''process'' \<noteq> ''fork'' \<and> ''process'' \<noteq> ''thread'' \<and> ''process'' \<noteq> ''subshell''
   \<and> test_command_optimized calm_world (resolved_command python_script None) ''process''
   \<and> snd (execute python_script calm_world ''process'' 3 None)
       = Inl (UnsupportedExecutionType ''process'')
   \<and> fst (execute python_script calm_world ''process'' 3 None)
       = [Run Preflight (resolved_command python_script None)]"
proof -
  have h1: "''process'' \<noteq> ''fork''" and h2: "''process'' \<noteq> ''thread''"
    and h3: "''process'' \<noteq> ''subshell''"
    by simp_all
  have p: "test_command_optimized calm_world (resolved_command python_script None) ''process''"
    by (simp add: test_command_optimized_def calm_world_def)
  from C9_unsupported_type_after_preflight [OF h1 h2 h3, of python_script calm_world 3 None] p
  have "snd (execute python_script calm_world ''process'' 3 None)
          = Inl (UnsupportedExecutionType ''process'')"
    and "fst (execute python_script calm_world ''process'' 3 None)
          = [Run Preflight (resolved_command python_script None)]"
    by blast+
  with h1 h2 h3 p show ?thesis by blast
qed

text \<open>
  C10. For the thread strategy with \<open>N > 1\<close> iterations and a passing pre-flight
  check, \<open>execute\<close> runs the command once for the pre-flight check, once in a
  one-iteration warm-up pass and then \<open>N\<close> times in the measured pass, \<open>N + 2\<close>
  times in all, and saves. The returned dictionary, without the fields \<open>execute\<close>
  adds, is what the measured call of \<open>execute_with_threads\<close> returned; it counts
  \<open>N\<close> iterations.
\<close>

theorem C10_thread_warmup_pass:
  assumes "1 < iterations" and "1 \<le> w_cpu_count w"
    and "test_command_optimized w (resolved_command self args) ''thread''"
  shows "fst (execute self w ''thread'' iterations args)
           = Run Preflight (resolved_command self args)
             # Run Warmup (resolved_command self args)
             # map (\<lambda>i. Run Measured (resolved_command self args)) (py_range iterations)
             @ [Saved]
       \<and> int (commands_executed (fst (execute self w ''thread'' iterations args)))
           = iterations + 2
       \<and> (\<exists>run. snd (execute self w ''thread'' iterations args) = Inr run
              \<and> Inr (strategy_result.truncate run)
                  = snd (execute_with_threads (w_cpu_count w) (measured_runs w) (measured_sched w)
                           (measured_total_time w) (resolved_command self args) iterations)
              \<and> total_iterations run = iterations)"
proof -
  let ?c = "resolved_command self args"
  have one: "1 \<le> iterations" using assms(1) by simp
  from thread_returns [of iterations "measured_runs w" "measured_sched w" "measured_total_time w"]
    one
  obtain r where r:
      "analyze_thread_results (thread_results (measured_runs w) (measured_sched w) iterations)
         (measured_total_time w) = Inr r"
      "total_iterations r = iterations"
    by auto
  have d: "dispatch w ?c ''thread'' iterations =
             (Run Warmup ?c # map (\<lambda>i. Run Measured ?c) (py_range iterations), Inr r)"
    using dispatch_thread_many [OF assms(1,2)] r(1) by simp
  note ex = execute_dispatch_result [OF assms(3) d]
  have t: "fst (execute self w ''thread'' iterations args)
           = Run Preflight ?c # Run Warmup ?c
             # map (\<lambda>i. Run Measured ?c) (py_range iterations) @ [Saved]"
    using ex by simp
  have n: "int (commands_executed (fst (execute self w ''thread'' iterations args)))
           = iterations + 2"
    using one by (simp add: t commands_executed_warm length_py_range)
  have m: "snd (execute_with_threads (w_cpu_count w) (measured_runs w) (measured_sched w)
                  (measured_total_time w) ?c iterations) = Inr r"
    using execute_with_threads_runs [OF one assms(2)] r(1) by simp
  have s: "\<exists>run. snd (execute self w ''thread'' iterations args) = Inr run
              \<and> Inr (strategy_result.truncate run)
                  = snd (execute_with_threads (w_cpu_count w) (measured_runs w) (measured_sched w)
                           (measured_total_time w) ?c iterations)
              \<and> total_iterations run = iterations"
    using ex m r(2) by (simp add: truncate_extend total_extend)
  from t n s show ?thesis by blast
qed

theorem C10_thread_warmup_pass_witness:
  "(1::int) < 3 \<and> 1 \<le> w_cpu_count calm_world
   \<and> test_command_optimized calm_world (resolved_command python_script None) ''thread''
   \<and> fst (execute python_script calm_world ''thread'' 3 None)
       = [Run Preflight [''python3'', ''bench.py''],
          Run Warmup [''python3'', ''bench.py''],
          Run Measured [''python3'', ''bench.py''],
          Run Measured [''python3'', ''bench.py''],
          Run Measured [''python3'', ''bench.py''],
          Saved]
   \<and> commands_executed (fst (execute python_script calm_world ''thread'' 3 None)) = 5
   \<and> (\<exists>run. snd (execute python_script calm_world ''thread'' 3 None) = Inr run
          \<and> total_iterations run = 3)"
proof -
  have h1: "(1::int) < 3" by simp
  have h2: "1 \<le> w_cpu_count calm_world" by (simp add: calm_world_def)
  have h3: "test_command_optimized calm_world (resolved_command python_script None) ''thread''"
    by (simp add: test_command_optimized_def calm_world_def)
  have c: "resolved_command python_script None = [''python3'', ''bench.py'']"
    by (simp add: resolved_command_def python_script_def)
  note inst = C10_thread_warmup_pass [OF h1 h2 h3]
  have "fst (execute python_script calm_world ''thread'' 3 None)
          = Run Preflight (resolved_command python_script None)
            # Run Warmup (resolved_command python_script None)
            # map (\<lambda>i. Run Measured (resolved_command python_script None)) (py_range 3)
            @ [Saved]"
    using inst by blast
  then have a: "fst (execute python_script calm_world ''thread'' 3 None)
       = [Run Preflight [''python3'', ''bench.py''],
          Run Warmup [''python3'', ''bench.py''],
          Run Measured [''python3'', ''bench.py''],
          Run Measured [''python3'', ''bench.py''],
          Run Measured [''python3'', ''bench.py''],
          Saved]"
    by (simp add: c py_range_3)
  have "int (commands_executed (fst (execute python_script calm_world ''thread'' 3 None)))
          = 3 + 2"
    using inst by blast
  then have b: "commands_executed (fst (execute python_script calm_world ''thread'' 3 None)) = 5"
    by simp
  have d: "\<exists>run. snd (execute python_script calm_world ''thread'' 3 None) = Inr run
          \<and> total_iterations run = 3"
    using inst by blast
  from h1 h2 h3 a b d show ?thesis by blast
qed

end
